theory Spec2Isabelle
  imports Complex_Main "HOL-Library.AList"
begin

section \<open>JavaScript values handled by the resource view\<close>

text \<open>
  \<^verbatim>\<open>handleEvent(ev: any)\<close> works on untyped data: what \<^verbatim>\<open>JSON.parse\<close> returns, plus
  \<^verbatim>\<open>undefined\<close>. An object is the list of its own properties in insertion order. An
  array is an object too: besides its elements it can hold named properties (none when
  it comes out of \<^verbatim>\<open>JSON.parse\<close>; the merge can store \<^verbatim>\<open>usage\<close> on one), so \<open>JArr xs ps\<close>
  has the elements \<open>xs\<close> and the own properties \<open>ps\<close> other than its indices and
  \<^verbatim>\<open>length\<close>. All the values the component mutates come out of \<^verbatim>\<open>JSON.parse\<close>, so they
  are trees without sharing, and a mutation in place is modelled by rebuilding the path
  to the changed object.
\<close>

datatype json =
    JUndef
  | JNull
  | JBool bool
  | JNum rat
  | JStr string
  | JArr "json list" "(string \<times> json) list"
  | JObj "(string \<times> json) list"

text \<open>What the code can throw: a TypeError, or the exception of \<^verbatim>\<open>JSON.parse\<close>.\<close>

datatype js_error = TypeError | ParseError

definition and_then :: "js_error + 'a \<Rightarrow> ('a \<Rightarrow> js_error + 'b) \<Rightarrow> js_error + 'b" where
  "and_then r f = (case r of Inl e \<Rightarrow> Inl e | Inr v \<Rightarrow> f v)"

section \<open>What the view takes from outside\<close>

text \<open>
  \<^verbatim>\<open>JSON.parse\<close> (on any value, \<open>None\<close> when it throws); \<^verbatim>\<open>flatten\<close> of the package
  \<^verbatim>\<open>flat\<close>; the language's comparison \<^verbatim>\<open>v > 0\<close> for a string, array or object \<open>v\<close>
  (its conversion to a number, which can throw, then the comparison); and the constants
  of \<^verbatim>\<open>TauriAdapter\<close>: \<^verbatim>\<open>response_channel.app_command_result\<close>,
  \<^verbatim>\<open>ngeventbus.app_events\<close>, \<^verbatim>\<open>ngevent.cluster_changed\<close>, \<^verbatim>\<open>ngevent.ns_changed\<close>,
  \<^verbatim>\<open>ngevent.escape_hit\<close>.
\<close>

record env =
  JSON_parse :: "json \<Rightarrow> json option"
  flatten :: "json \<Rightarrow> json"
  coerced_gt_zero :: "json \<Rightarrow> js_error + bool"
  app_command_result :: string
  app_events :: string
  cluster_changed :: string
  ns_changed :: string
  escape_hit :: string

section \<open>Reading and writing properties\<close>

text \<open>The truth value of a condition: \<^verbatim>\<open>if (v)\<close>, \<^verbatim>\<open>!v\<close>, \<^verbatim>\<open>v && w\<close>.\<close>

fun truthy :: "json \<Rightarrow> bool" where
  "truthy JUndef = False"
| "truthy JNull = False"
| "truthy (JBool b) = b"
| "truthy (JNum n) = (n \<noteq> 0)"
| "truthy (JStr s) = (s \<noteq> [])"
| "truthy (JArr xs ps) = True"
| "truthy (JObj kvs) = True"

definition own_prop :: "(string \<times> json) list \<Rightarrow> string \<Rightarrow> json" where
  "own_prop kvs k = (case map_of kvs k of None \<Rightarrow> JUndef | Some v \<Rightarrow> v)"

text \<open>
  \<^verbatim>\<open>v.k\<close> for the property names the component reads (\<^verbatim>\<open>items\<close>, \<^verbatim>\<open>resource\<close>,
  \<^verbatim>\<open>metrics\<close>, \<^verbatim>\<open>spec\<close>, \<^verbatim>\<open>containers\<close>, \<^verbatim>\<open>metadata\<close>, \<^verbatim>\<open>name\<close>, \<^verbatim>\<open>resources\<close>,
  \<^verbatim>\<open>usage\<close>): reading a property of \<^verbatim>\<open>undefined\<close> or \<^verbatim>\<open>null\<close> throws a TypeError; an
  array has such a property only as a named property of its own; strings, numbers and
  booleans have none of them.
\<close>

fun get_field :: "json \<Rightarrow> string \<Rightarrow> js_error + json" where
  "get_field JUndef k = Inl TypeError"
| "get_field JNull k = Inl TypeError"
| "get_field (JObj kvs) k = Inr (own_prop kvs k)"
| "get_field (JArr xs ps) k = Inr (own_prop ps k)"
| "get_field v k = Inr JUndef"

text \<open>
  \<^verbatim>\<open>n > 0\<close> for the value \<open>n\<close> of a \<^verbatim>\<open>length\<close> property: \<^verbatim>\<open>undefined\<close> is not a number,
  \<^verbatim>\<open>null\<close> counts as 0, \<^verbatim>\<open>true\<close> as 1; any other value is converted by the language.
\<close>

fun gt_zero :: "env \<Rightarrow> json \<Rightarrow> js_error + bool" where
  "gt_zero env JUndef = Inr False"
| "gt_zero env JNull = Inr False"
| "gt_zero env (JBool b) = Inr b"
| "gt_zero env (JNum n) = Inr (0 < n)"
| "gt_zero env v = coerced_gt_zero env v"

text \<open>\<^verbatim>\<open>v.length > 0\<close>.\<close>

fun length_gt_zero :: "env \<Rightarrow> json \<Rightarrow> js_error + bool" where
  "length_gt_zero env JUndef = Inl TypeError"
| "length_gt_zero env JNull = Inl TypeError"
| "length_gt_zero env (JArr xs ps) = Inr (xs \<noteq> [])"
| "length_gt_zero env (JStr s) = Inr (s \<noteq> [])"
| "length_gt_zero env (JObj kvs) = gt_zero env (own_prop kvs ''length'')"
| "length_gt_zero env v = Inr False"

text \<open>\<^verbatim>\<open>v && v.length > 0\<close>, the test applied to both container lists.\<close>

definition has_elements :: "env \<Rightarrow> json \<Rightarrow> js_error + bool" where
  "has_elements env v = (if truthy v then length_gt_zero env v else Inr False)"

text \<open>\<^verbatim>\<open>v[0]\<close>.\<close>

fun index0 :: "json \<Rightarrow> js_error + json" where
  "index0 JUndef = Inl TypeError"
| "index0 JNull = Inl TypeError"
| "index0 (JArr xs ps) = Inr (case xs of [] \<Rightarrow> JUndef | x # _ \<Rightarrow> x)"
| "index0 (JStr s) = Inr (case s of [] \<Rightarrow> JUndef | c # _ \<Rightarrow> JStr [c])"
| "index0 (JObj kvs) = Inr (own_prop kvs ''0'')"
| "index0 v = Inr JUndef"

text \<open>
  \<^verbatim>\<open>v.k = w\<close> in strict mode (the code is an ES module class): a TypeError on
  \<^verbatim>\<open>undefined\<close>, \<^verbatim>\<open>null\<close> and on primitive values; on an object, and on an array for
  the names the component writes (\<^verbatim>\<open>items\<close>, \<^verbatim>\<open>usage\<close>, \<^verbatim>\<open>flat\<close>), the property is
  overwritten in place or appended.
\<close>

fun set_field :: "json \<Rightarrow> string \<Rightarrow> json \<Rightarrow> js_error + json" where
  "set_field (JObj kvs) k w = Inr (JObj (AList.update k w kvs))"
| "set_field (JArr xs ps) k w = Inr (JArr xs (AList.update k w ps))"
| "set_field v k w = Inl TypeError"

text \<open>
  Writing a changed element back at index 0 of the value it was read from by
  \<open>index0\<close>, and a changed property value back under its name.
\<close>

fun put_index0 :: "json \<Rightarrow> json \<Rightarrow> json" where
  "put_index0 (JArr (x # xs) ps) w = JArr (w # xs) ps"
| "put_index0 (JObj kvs) w = JObj (AList.update ''0'' w kvs)"
| "put_index0 v w = v"

fun put_field :: "json \<Rightarrow> string \<Rightarrow> json \<Rightarrow> json" where
  "put_field (JObj kvs) k w = JObj (AList.update k w kvs)"
| "put_field (JArr xs ps) k w = JArr xs (AList.update k w ps)"
| "put_field v k w = v"

text \<open>\<^verbatim>\<open>_.get(v, k)\<close> of lodash with a one-segment path.\<close>

fun lodash_get :: "json \<Rightarrow> string \<Rightarrow> json" where
  "lodash_get (JObj kvs) k = own_prop kvs k"
| "lodash_get (JArr xs ps) k = own_prop ps k"
| "lodash_get v k = JUndef"

section \<open>The name-keyed metrics map\<close>

text \<open>
  \<^verbatim>\<open>new Map()\<close>, newest entry first. Keys are compared as \<^verbatim>\<open>Map\<close> does: primitive values
  by value; an object or array only matches itself, and the keys looked up come from
  another parsed document than the keys stored, so such a key never matches.
\<close>

type_synonym mmap = "(json \<times> json) list"

fun same_key :: "json \<Rightarrow> json \<Rightarrow> bool" where
  "same_key (JArr xs ps) w = False"
| "same_key (JObj kvs) w = False"
| "same_key v w = (v = w)"

fun mmap_get :: "mmap \<Rightarrow> json \<Rightarrow> json" where
  "mmap_get [] k = JUndef"
| "mmap_get ((k', v) # m) k = (if same_key k' k then v else mmap_get m k)"

definition mmap_set :: "json \<Rightarrow> json \<Rightarrow> mmap \<Rightarrow> mmap" where
  "mmap_set k v m = (k, v) # m"

section \<open>The component and its surroundings\<close>

text \<open>The \<^verbatim>\<open>Resource\<close> input: columns, the optional command list, a name.\<close>

record cmd =
  cmd_command :: json
  cmd_arguments :: json

record resource =
  res_columns :: "json list"
  res_command :: "cmd list option"
  res_name :: string

text \<open>
  \<^verbatim>\<open>rowData$\<close>: \<^verbatim>\<open>from(xs)\<close> emits the elements of \<open>xs\<close>; \<^verbatim>\<open>new Observable()\<close> emits
  nothing.
\<close>

datatype observable = ObsFrom "json list" | ObsNew

text \<open>
  The fields the component assigns. The icon fields and \<^verbatim>\<open>defaultColDef\<close> are
  constants and left out.
\<close>

record component =
  isLoading :: bool
  resourceinstances :: "json list"
  isSideBarHidden :: bool
  columnDefs :: "json list"
  resource :: resource
  rowData_obs :: observable
  rowData :: "json list"
  selectedapp :: json
  subscription :: "nat option"

text \<open>
  A timer set by \<^verbatim>\<open>setTimeout\<close>: its delay in milliseconds and the call its callback
  makes on the backend service.
\<close>

datatype be_call = ExecuteCommandInCurrentNs json json bool

record timer =
  delay :: nat
  call :: be_call

text \<open>
  The component together with what it acts on: the grid's rows
  (\<^verbatim>\<open>aggrid.api.setRowData\<close>), the pending timers, the console, the listener registry of
  the backend service and the subscriptions of the event bus.
\<close>

record view =
  self :: nat
  comp :: component
  grid_rows :: "json list"
  timers :: "timer list"
  console :: "string list"
  listeners :: "(string \<times> nat) list"
  bus_subs :: "(nat \<times> string \<times> nat) list"
  next_token :: nat

section \<open>initialize and clearTable\<close>

text \<open>
  \<^verbatim>\<open>
  let delay = 0;
  this.resource.command?.forEach((cmd) => {
      setTimeout(() => {
          this.beService.executeCommandInCurrentNs(cmd.command, cmd.arguments,true);
      }, delay);
      delay += 1000;
  });
  \<close>
\<close>

fun schedule :: "nat \<Rightarrow> cmd list \<Rightarrow> timer list" where
  "schedule d [] = []"
| "schedule d (c # cs) =
     \<lparr>delay = d, call = ExecuteCommandInCurrentNs (cmd_command c) (cmd_arguments c) True\<rparr>
       # schedule (d + 1000) cs"

definition initialize :: "view \<Rightarrow> view" where
  "initialize s =
     (case res_command (resource (comp s)) of
        None \<Rightarrow> s
      | Some cs \<Rightarrow> s\<lparr>timers := timers s @ schedule 0 cs\<rparr>)"

definition clearTable :: "view \<Rightarrow> view" where
  "clearTable s = s\<lparr>comp := (comp s)\<lparr>rowData_obs := ObsFrom []\<rparr>, grid_rows := []\<rparr>"

section \<open>handleEvent\<close>

text \<open>
  \<^verbatim>\<open>metrics.items.forEach((m: any) => { mmap.set(m.metadata.name, m); })\<close>
\<close>

fun collect_metrics :: "json list \<Rightarrow> mmap \<Rightarrow> js_error + mmap" where
  "collect_metrics [] mm = Inr mm"
| "collect_metrics (m # ms) mm =
     and_then (get_field m ''metadata'') (\<lambda>md.
     and_then (get_field md ''name'') (\<lambda>nm.
     collect_metrics ms (mmap_set nm m mm)))"

text \<open>
  \<^verbatim>\<open>xs.forEach(...)\<close> needs an array that has no property of its own named \<^verbatim>\<open>forEach\<close>:
  on any other value \<^verbatim>\<open>forEach\<close> is undefined or not a function and the call throws a
  TypeError. It visits the elements, not the named properties.
\<close>

fun forEach_target :: "json \<Rightarrow> js_error + json list" where
  "forEach_target (JArr xs ps) =
     (case map_of ps ''forEach'' of None \<Rightarrow> Inr xs | Some f \<Rightarrow> Inl TypeError)"
| "forEach_target v = Inl TypeError"

definition parse_or_throw :: "env \<Rightarrow> json \<Rightarrow> js_error + json" where
  "parse_or_throw env v = (case JSON_parse env v of None \<Rightarrow> Inl ParseError | Some r \<Rightarrow> Inr r)"

text \<open>
  \<^verbatim>\<open>
  const mmap = new Map();
  if (!results.items && results.resource && results.metrics) {
      results.items = JSON.parse(results.resource).items;
      const metrics = JSON.parse(results.metrics);
      metrics.items.forEach((m: any) => { mmap.set(m.metadata.name, m); })
  }
  \<close>
  The result is \<open>results\<close> as the block leaves it, and the map.
\<close>

definition load_results :: "env \<Rightarrow> json \<Rightarrow> js_error + (json \<times> mmap)" where
  "load_results env results =
     and_then (get_field results ''items'') (\<lambda>items.
     if truthy items then Inr (results, [])
     else
     and_then (get_field results ''resource'') (\<lambda>res.
     if \<not> truthy res then Inr (results, [])
     else
     and_then (get_field results ''metrics'') (\<lambda>met.
     if \<not> truthy met then Inr (results, [])
     else
     and_then (parse_or_throw env res) (\<lambda>parsed.
     and_then (get_field parsed ''items'') (\<lambda>pitems.
     and_then (set_field results ''items'' pitems) (\<lambda>results'.
     and_then (parse_or_throw env met) (\<lambda>metrics.
     and_then (get_field metrics ''items'') (\<lambda>mitems.
     and_then (forEach_target mitems) (\<lambda>ms.
     and_then (collect_metrics ms []) (\<lambda>mm.
     Inr (results', mm)))))))))))"

text \<open>\<^verbatim>\<open>metric && metric.containers && metric.containers.length > 0\<close>\<close>

definition metric_usable :: "env \<Rightarrow> json \<Rightarrow> js_error + bool" where
  "metric_usable env metric =
     (if truthy metric then and_then (get_field metric ''containers'') (has_elements env)
      else Inr False)"

text \<open>
  \<^verbatim>\<open>
  if (item.spec.containers && item.spec.containers.length > 0){
      const metric = mmap.get(item.metadata.name);
      if (metric && metric.containers && metric.containers.length > 0) {
          item.spec.containers[0].resources.usage = metric.containers[0].usage;
      }
  }
  \<close>
  The assignment evaluates the object on its left, then the value on its right, then
  stores; the item is rebuilt around the changed \<^verbatim>\<open>resources\<close> object.
\<close>

definition attach_usage :: "env \<Rightarrow> mmap \<Rightarrow> json \<Rightarrow> js_error + json" where
  "attach_usage env mm item =
     and_then (get_field item ''spec'') (\<lambda>spec.
     and_then (get_field spec ''containers'') (\<lambda>cs.
     and_then (has_elements env cs) (\<lambda>nonempty.
     if \<not> nonempty then Inr item
     else
     and_then (get_field item ''metadata'') (\<lambda>md.
     and_then (get_field md ''name'') (\<lambda>nm.
     and_then (metric_usable env (mmap_get mm nm)) (\<lambda>usable.
     if \<not> usable then Inr item
     else
     and_then (index0 cs) (\<lambda>c0.
     and_then (get_field c0 ''resources'') (\<lambda>r.
     and_then (get_field (mmap_get mm nm) ''containers'') (\<lambda>mcs.
     and_then (index0 mcs) (\<lambda>m0.
     and_then (get_field m0 ''usage'') (\<lambda>u.
     and_then (set_field r ''usage'' u) (\<lambda>r'.
     Inr (put_field item ''spec''
           (put_field spec ''containers''
             (put_index0 cs (put_field c0 ''resources'' r'))))))))))))))))"

text \<open>The body of \<^verbatim>\<open>results.items.forEach\<close>: the merge, then \<^verbatim>\<open>item.flat = flatten(item)\<close>.\<close>

definition handle_item :: "env \<Rightarrow> mmap \<Rightarrow> json \<Rightarrow> js_error + json" where
  "handle_item env mm item =
     and_then (attach_usage env mm item) (\<lambda>item'.
     set_field item' ''flat'' (flatten env item'))"

fun handle_items :: "env \<Rightarrow> mmap \<Rightarrow> json list \<Rightarrow> js_error + json list" where
  "handle_items env mm [] = Inr []"
| "handle_items env mm (x # xs) =
     and_then (handle_item env mm x) (\<lambda>x'.
     and_then (handle_items env mm xs) (\<lambda>xs'.
     Inr (x' # xs')))"

text \<open>An event as the backend service hands it to its listeners.\<close>

record event =
  ev_name :: json
  ev_payload :: json

text \<open>
  \<^verbatim>\<open>
  let results: any;
  try { results = JSON.parse(_.get(payload, 'data')); }
  catch (e) { console.error("Failed to parse payload"); }
  \<close>
\<close>

definition parse_payload :: "env \<Rightarrow> json \<Rightarrow> view \<Rightarrow> json \<times> view" where
  "parse_payload env payload s =
     (case JSON_parse env (lodash_get payload ''data'') of
        Some r \<Rightarrow> (r, s)
      | None \<Rightarrow> (JUndef, s\<lparr>console := console s @ [''Failed to parse payload'']\<rparr>))"

text \<open>
  \<^verbatim>\<open>
  this.rowData$ = from(results.items);
  this.rowData = results.items;
  this.isLoading = false;
  \<close>
\<close>

definition show_rows :: "json list \<Rightarrow> view \<Rightarrow> view" where
  "show_rows xs s =
     s\<lparr>comp := (comp s)\<lparr>rowData_obs := ObsFrom xs, rowData := xs, isLoading := False\<rparr>\<rparr>"

text \<open>
  \<^verbatim>\<open>handleEvent(ev)\<close>: the state it leaves and the exception it throws, if any. Every
  exception leaves the loop before the component is assigned to.
\<close>

definition handleEvent :: "env \<Rightarrow> event \<Rightarrow> view \<Rightarrow> view \<times> js_error option" where
  "handleEvent env ev s =
     (let evname = ev_name ev;
          payload = ev_payload ev;
          (results, s1) = parse_payload env payload s
      in if evname = JStr (app_command_result env) then
           (case load_results env results of
              Inl e \<Rightarrow> (s1, Some e)
            | Inr (results', mm) \<Rightarrow>
                (case get_field results' ''items'' of
                   Inl e \<Rightarrow> (s1, Some e)
                 | Inr items \<Rightarrow>
                     if truthy items then
                       (case and_then (forEach_target items) (handle_items env mm) of
                          Inl e \<Rightarrow> (s1, Some e)
                        | Inr rows \<Rightarrow> (show_rows rows s1, None))
                     else (s1, None)))
         else (s1, None))"

section \<open>Lifecycle\<close>

text \<open>
  Modelled from the spec: the listener registry of \<^verbatim>\<open>TauriAdapter\<close>
  (\<^verbatim>\<open>registerListener\<close>, \<^verbatim>\<open>unRegisterListener\<close> and the delivery of a result to the
  listeners of its channel) is not among the sources. The spec's event bus registers a
  listener for a channel, delivers every event of the channel to every registered
  listener, and delivers nothing to a listener that has been unregistered.
\<close>

definition registerListener :: "string \<Rightarrow> nat \<Rightarrow> view \<Rightarrow> view" where
  "registerListener ch l s = s\<lparr>listeners := listeners s @ [(ch, l)]\<rparr>"

definition unRegisterListener :: "nat \<Rightarrow> view \<Rightarrow> view" where
  "unRegisterListener l s = s\<lparr>listeners := filter (\<lambda>(ch, l'). l' \<noteq> l) (listeners s)\<rparr>"

definition result_receivers :: "string \<Rightarrow> view \<Rightarrow> nat list" where
  "result_receivers ch s = map snd (filter (\<lambda>(ch', l). ch' = ch) (listeners s))"

text \<open>
  Modelled from the spec: the lifecycle channel is the event bus of the package
  \<^verbatim>\<open>ng-event-bus\<close>, which is not among the sources.
  \<^verbatim>\<open>eventBus.on(key).subscribe(callback)\<close> returns a subscription, here a fresh token;
  \<^verbatim>\<open>unsubscribe()\<close> removes it and is idempotent.
\<close>

definition bus_subscribe :: "string \<Rightarrow> nat \<Rightarrow> view \<Rightarrow> nat \<times> view" where
  "bus_subscribe key l s =
     (next_token s,
      s\<lparr>bus_subs := bus_subs s @ [(next_token s, key, l)], next_token := Suc (next_token s)\<rparr>)"

definition bus_unsubscribe :: "nat \<Rightarrow> view \<Rightarrow> view" where
  "bus_unsubscribe tok s = s\<lparr>bus_subs := filter (\<lambda>(t, key, l). t \<noteq> tok) (bus_subs s)\<rparr>"

definition bus_receivers :: "string \<Rightarrow> view \<Rightarrow> nat list" where
  "bus_receivers key s = map (\<lambda>(t, k, l). l) (filter (\<lambda>(t, k, l). k = key) (bus_subs s))"

text \<open>The field initialisers followed by the constructor's assignments.\<close>

definition new_component :: component where
  "new_component =
     \<lparr>isLoading = True, resourceinstances = [], isSideBarHidden = True, columnDefs = [],
      resource = \<lparr>res_columns = [], res_command = Some [], res_name = []\<rparr>,
      rowData_obs = ObsNew, rowData = [], selectedapp = JUndef, subscription = None\<rparr>"

definition constructor :: "env \<Rightarrow> nat \<Rightarrow> view \<Rightarrow> view" where
  "constructor env me s =
     registerListener (app_command_result env) me (s\<lparr>self := me, comp := new_component\<rparr>)"

text \<open>
  \<^verbatim>\<open>
  ngOnDestroy(): void {
      this.beService.unRegisterListener(this);
      this.subscription?.unsubscribe();
  }
  \<close>
\<close>

definition ngOnDestroy :: "view \<Rightarrow> view" where
  "ngOnDestroy s =
     (let s1 = unRegisterListener (self s) s
      in case subscription (comp s1) of
           None \<Rightarrow> s1
         | Some tok \<Rightarrow> bus_unsubscribe tok s1)"

text \<open>
  The callback subscribed in \<^verbatim>\<open>ngOnInit\<close>, applied to \<^verbatim>\<open>meta.data\<close>:
  \<^verbatim>\<open>
  if (meta.data === this.beService.ngevent.cluster_changed) {
      this.isLoading = true;
      this.clearTable();
  }else if (meta.data === this.beService.ngevent.ns_changed) {
      this.isLoading = true;
      this.clearTable();
      this.initialize();
  }else if (meta.data === this.beService.ngevent.escape_hit) {
      if ( ! this.isSideBarHidden) {
          this.isSideBarHidden = true;
      }
  }
  \<close>
\<close>

definition set_loading :: "view \<Rightarrow> view" where
  "set_loading s = s\<lparr>comp := (comp s)\<lparr>isLoading := True\<rparr>\<rparr>"

definition on_app_event :: "env \<Rightarrow> json \<Rightarrow> view \<Rightarrow> view" where
  "on_app_event env meta_data s =
     (if meta_data = JStr (cluster_changed env) then clearTable (set_loading s)
      else if meta_data = JStr (ns_changed env) then initialize (clearTable (set_loading s))
      else if meta_data = JStr (escape_hit env) then
        (if \<not> isSideBarHidden (comp s)
         then s\<lparr>comp := (comp s)\<lparr>isSideBarHidden := True\<rparr>\<rparr>
         else s)
      else s)"

text \<open>
  \<^verbatim>\<open>
  ngOnInit(): void {
      this.ngZone.run(() => { this.columnDefs = this.resource.columns; });
      this.initialize();
      this.subscription = this.eventBus.on(this.beService.ngeventbus.app_events).subscribe(...);
  }
  \<close>
\<close>

definition ngOnInit :: "env \<Rightarrow> view \<Rightarrow> view" where
  "ngOnInit env s =
     (let s1 = s\<lparr>comp := (comp s)\<lparr>columnDefs := res_columns (resource (comp s))\<rparr>\<rparr>;
          s2 = initialize s1;
          (tok, s3) = bus_subscribe (app_events env) (self s2) s2
      in s3\<lparr>comp := (comp s3)\<lparr>subscription := Some tok\<rparr>\<rparr>)"

text \<open>
  What reaches the component from outside: a result published on a channel of the
  backend service, or a signal published on the event bus under a key. Each is handed
  to the component only while it is registered for it.
\<close>

datatype incoming = Result string event | Signal string json

fun deliver :: "env \<Rightarrow> incoming \<Rightarrow> view \<Rightarrow> view" where
  "deliver env (Result ch ev) s =
     (if self s \<in> set (result_receivers ch s) then fst (handleEvent env ev s) else s)"
| "deliver env (Signal key d) s =
     (if self s \<in> set (bus_receivers key s) then on_app_event env d s else s)"

fun deliver_all :: "env \<Rightarrow> incoming list \<Rightarrow> view \<Rightarrow> view" where
  "deliver_all env [] s = s"
| "deliver_all env (i # is) s = deliver_all env is (deliver env i s)"

text \<open>Angular assigns the \<^verbatim>\<open>@Input() resource\<close> between the constructor and \<^verbatim>\<open>ngOnInit\<close>.\<close>

definition set_input :: "resource \<Rightarrow> view \<Rightarrow> view" where
  "set_input r s = s\<lparr>comp := (comp s)\<lparr>resource := r\<rparr>\<rparr>"

section \<open>The payloads and the merge, as the specification describes them\<close>

text \<open>
  The definitions of this section are not taken from the code: they say, in the words
  of the specification, which data the view expects and what the merge of a resource
  item with the metrics is. The theorems below compare \<^verbatim>\<open>handleEvent\<close> with them.
\<close>

abbreviation field :: "json \<Rightarrow> string \<Rightarrow> json" where
  "field v k \<equiv> lodash_get v k"

text \<open>The values that hold named properties: objects and arrays.\<close>

fun has_props :: "json \<Rightarrow> bool" where
  "has_props (JObj kvs) = True"
| "has_props (JArr xs ps) = True"
| "has_props v = False"

fun is_obj :: "json \<Rightarrow> bool" where
  "is_obj (JObj kvs) = True"
| "is_obj v = False"

text \<open>
  A resource item: an object with a \<^verbatim>\<open>metadata\<close> object and a \<^verbatim>\<open>spec\<close> object whose
  \<^verbatim>\<open>containers\<close>, when present, is a list; the first container carries a \<^verbatim>\<open>resources\<close>
  object, as every container returned by the Kubernetes API does.
\<close>

definition pod_like :: "json \<Rightarrow> bool" where
  "pod_like item =
     (is_obj (field item ''metadata'') \<and> is_obj (field item ''spec'') \<and>
      (case field (field item ''spec'') ''containers'' of
         JUndef \<Rightarrow> True
       | JArr cs ps \<Rightarrow> (case cs of [] \<Rightarrow> True | c # _ \<Rightarrow> is_obj (field c ''resources''))
       | _ \<Rightarrow> False))"

text \<open>
  A metrics entry: an object with a \<^verbatim>\<open>metadata\<close> object whose \<^verbatim>\<open>containers\<close>, when
  present, is a list of objects.
\<close>

definition metric_like :: "json \<Rightarrow> bool" where
  "metric_like m =
     (is_obj (field m ''metadata'') \<and>
      (case field m ''containers'' of
         JUndef \<Rightarrow> True
       | JArr cs ps \<Rightarrow> (case cs of [] \<Rightarrow> True | c # _ \<Rightarrow> is_obj c)
       | _ \<Rightarrow> False))"

text \<open>The metrics list keyed by resource name; of two entries with one name the later counts.\<close>

definition metrics_map :: "json list \<Rightarrow> mmap" where
  "metrics_map ms = rev (map (\<lambda>m. (field (field m ''metadata'') ''name'', m)) ms)"

text \<open>The item with \<open>u\<close> as the \<^verbatim>\<open>usage\<close> of its first container's \<^verbatim>\<open>resources\<close>.\<close>

definition with_usage :: "json \<Rightarrow> json \<Rightarrow> json" where
  "with_usage item u =
     (let spec = field item ''spec'';
          cs = field spec ''containers'';
          c = (case cs of JArr (c # _) ps \<Rightarrow> c | _ \<Rightarrow> JUndef);
          r = field c ''resources''
      in put_field item ''spec''
           (put_field spec ''containers''
             (put_index0 cs (put_field c ''resources'' (put_field r ''usage'' u)))))"

text \<open>
  Merge correctness in the specification's words: \<^verbatim>\<open>usage\<close> is attached to the first
  container of an item if and only if the item has at least one container and a metrics
  entry with the item's name and at least one container entry exists; the usage is that
  of the entry's first container; otherwise the item is returned unmodified.
\<close>

definition merged :: "mmap \<Rightarrow> json \<Rightarrow> json" where
  "merged mm item =
     (case field (field item ''spec'') ''containers'' of
        JArr (c # cs) ps \<Rightarrow>
          (case field (mmap_get mm (field (field item ''metadata'') ''name'')) ''containers'' of
             JArr (mc # mcs) mps \<Rightarrow> with_usage item (field mc ''usage'')
           | _ \<Rightarrow> item)
      | _ \<Rightarrow> item)"

text \<open>What \<^verbatim>\<open>handleEvent\<close> adds to every item after the merge: \<^verbatim>\<open>item.flat\<close>.\<close>

definition with_flat :: "env \<Rightarrow> json \<Rightarrow> json" where
  "with_flat env item = put_field item ''flat'' (flatten env item)"

text \<open>
  The two shapes of a command result (specification, section 6): the event is on the
  result channel and its data parses to a value that has the list \<open>items\<close> directly, with
  no metrics, or has no \<^verbatim>\<open>items\<close> but \<^verbatim>\<open>resource\<close> and \<^verbatim>\<open>metrics\<close>, two JSON texts, the
  first with the list \<open>items\<close> and the second with a list of named metrics entries that
  make up the map \<open>mm\<close>. The lists are arrays as \<^verbatim>\<open>JSON.parse\<close> returns them, without
  named properties.
\<close>

definition carries :: "env \<Rightarrow> event \<Rightarrow> json list \<Rightarrow> mmap \<Rightarrow> bool" where
  "carries env ev items mm =
     (ev_name ev = JStr (app_command_result env) \<and>
      (case JSON_parse env (field (ev_payload ev) ''data'') of
         None \<Rightarrow> False
       | Some results \<Rightarrow>
           (field results ''items'' = JArr items [] \<and> mm = []) \<or>
           (\<not> truthy (field results ''items'') \<and>
            truthy (field results ''resource'') \<and> truthy (field results ''metrics'') \<and>
            (case JSON_parse env (field results ''resource'') of
               None \<Rightarrow> False
             | Some parsed \<Rightarrow>
                 field parsed ''items'' = JArr items [] \<and>
                 (case JSON_parse env (field results ''metrics'') of
                    None \<Rightarrow> False
                  | Some metrics \<Rightarrow>
                      (case field metrics ''items'' of
                         JArr ms ps \<Rightarrow>
                           ps = [] \<and>
                           list_all (\<lambda>m. is_obj (field m ''metadata'')) ms \<and>
                           mm = metrics_map ms
                       | _ \<Rightarrow> False))))))"


section \<open>A sample environment and sample data\<close>

text \<open>
  The JSON encoding of a string, as the backend produces it for the \<^verbatim>\<open>resource\<close> and
  \<^verbatim>\<open>metrics\<close> fields: quotes and backslashes are escaped.
\<close>

fun escaped :: "string \<Rightarrow> string" where
  "escaped [] = []"
| "escaped (c # cs) =
     (if c = CHR 0x22 \<or> c = CHR 0x5C then CHR 0x5C # c # escaped cs else c # escaped cs)"

definition quoted :: "string \<Rightarrow> string" where
  "quoted s = CHR 0x22 # escaped s @ [CHR 0x22]"

text \<open>Two pods, and metrics for the first of them only.\<close>

definition web_pod :: json where
  "web_pod = JObj
     [(''metadata'', JObj [(''name'', JStr ''web'')]),
      (''spec'', JObj [(''containers'', JArr
         [JObj [(''name'', JStr ''app''), (''resources'', JObj [])],
          JObj [(''name'', JStr ''proxy''), (''resources'', JObj [])]] [])])]"

definition db_pod :: json where
  "db_pod = JObj
     [(''metadata'', JObj [(''name'', JStr ''db'')]),
      (''spec'', JObj [(''containers'', JArr
         [JObj [(''name'', JStr ''pg''), (''resources'', JObj [])]] [])])]"

definition web_metric :: json where
  "web_metric = JObj
     [(''metadata'', JObj [(''name'', JStr ''web'')]),
      (''containers'', JArr
         [JObj [(''name'', JStr ''app''), (''usage'', JObj [(''cpu'', JStr ''12m'')])]] [])]"

definition web_pod_merged :: json where
  "web_pod_merged = JObj
     [(''metadata'', JObj [(''name'', JStr ''web'')]),
      (''spec'', JObj [(''containers'', JArr
         [JObj [(''name'', JStr ''app''),
                (''resources'', JObj [(''usage'', JObj [(''cpu'', JStr ''12m'')])])],
          JObj [(''name'', JStr ''proxy''), (''resources'', JObj [])]] [])])]"

definition pods_text :: string where
  \<open>pods_text = ''{"items":[{"metadata":{"name":"web"},"spec":{"containers":[{"name":"app","resources":{}},{"name":"proxy","resources":{}}]}},{"metadata":{"name":"db"},"spec":{"containers":[{"name":"pg","resources":{}}]}}]}''\<close>

definition metrics_text :: string where
  \<open>metrics_text = ''{"items":[{"metadata":{"name":"web"},"containers":[{"name":"app","usage":{"cpu":"12m"}}]}]}''\<close>

definition joined_text :: string where
  \<open>joined_text =
     ''{"resource":'' @ quoted pods_text @ '',"metrics":'' @ quoted metrics_text @ ''}''\<close>

definition db_only_text :: string where
  \<open>db_only_text = ''{"items":[{"metadata":{"name":"db"},"spec":{"containers":[{"name":"pg","resources":{}}]}}]}''\<close>

definition resource_only_text :: string where
  \<open>resource_only_text = ''{"resource":'' @ quoted pods_text @ ''}''\<close>

definition other_text :: string where
  \<open>other_text = ''{"namespaces":["default"]}''\<close>

text \<open>
  \<^verbatim>\<open>JSON.parse\<close> and \<^verbatim>\<open>flatten\<close> on the sample data: the texts above parse to the
  documents they spell, every other text used below is not JSON; \<^verbatim>\<open>flatten\<close> joins
  nested keys with dots and keeps an empty object as a value. Every \<^verbatim>\<open>containers\<close> of
  the sample data is a list, so no sample reaches the conversion of a \<^verbatim>\<open>length\<close> to a
  number; the sample environment answers it as for an empty string.
\<close>

definition sample_parse :: "json \<Rightarrow> json option" where
  "sample_parse v =
     (if v = JStr pods_text then Some (JObj [(''items'', JArr [web_pod, db_pod] [])])
      else if v = JStr metrics_text then Some (JObj [(''items'', JArr [web_metric] [])])
      else if v = JStr joined_text then
        Some (JObj [(''resource'', JStr pods_text), (''metrics'', JStr metrics_text)])
      else if v = JStr db_only_text then Some (JObj [(''items'', JArr [db_pod] [])])
      else if v = JStr resource_only_text then Some (JObj [(''resource'', JStr pods_text)])
      else if v = JStr other_text then
        Some (JObj [(''namespaces'', JArr [JStr ''default''] [])])
      else None)"

definition sample_flatten :: "json \<Rightarrow> json" where
  "sample_flatten v =
     (if v = web_pod_merged then JObj
        [(''metadata.name'', JStr ''web''),
         (''spec.containers.0.name'', JStr ''app''),
         (''spec.containers.0.resources.usage.cpu'', JStr ''12m''),
         (''spec.containers.1.name'', JStr ''proxy''),
         (''spec.containers.1.resources'', JObj [])]
      else if v = db_pod then JObj
        [(''metadata.name'', JStr ''db''),
         (''spec.containers.0.name'', JStr ''pg''),
         (''spec.containers.0.resources'', JObj [])]
      else JObj [])"

definition sample_env :: env where
  "sample_env =
     \<lparr>JSON_parse = sample_parse, flatten = sample_flatten,
      coerced_gt_zero = (\<lambda>v. Inr False),
      app_command_result = ''app_command_result'', app_events = ''app_events'',
      cluster_changed = ''cluster_changed'', ns_changed = ''ns_changed'',
      escape_hit = ''escape_hit''\<rparr>"

definition sample_cmds :: "cmd list" where
  "sample_cmds =
     [\<lparr>cmd_command = JStr ''get_pods'', cmd_arguments = JObj []\<rparr>,
      \<lparr>cmd_command = JStr ''get_metrics'', cmd_arguments = JObj []\<rparr>,
      \<lparr>cmd_command = JStr ''get_deployments'', cmd_arguments = JObj []\<rparr>]"

text \<open>A view showing one row, with its side bar open, and nothing registered yet.\<close>

definition sample_view :: view where
  "sample_view =
     \<lparr>self = 1,
      comp = new_component
        \<lparr>isLoading := False, isSideBarHidden := False,
         resource := \<lparr>res_columns = [], res_command = Some sample_cmds, res_name = ''pods''\<rparr>,
         rowData_obs := ObsFrom [db_pod], rowData := [db_pod]\<rparr>,
      grid_rows = [db_pod], timers = [], console = [], listeners = [], bus_subs = [],
      next_token = 0\<rparr>"

definition result_event :: "string \<Rightarrow> event" where
  "result_event text =
     \<lparr>ev_name = JStr ''app_command_result'',
      ev_payload = JObj [(''command'', JStr ''get_pods''), (''data'', JStr text)]\<rparr>"


text \<open>The rows the sample data should give: each item with its \<^verbatim>\<open>flat\<close> field.\<close>

definition web_row :: json where
  "web_row = JObj
     [(''metadata'', JObj [(''name'', JStr ''web'')]),
      (''spec'', JObj [(''containers'', JArr
         [JObj [(''name'', JStr ''app''),
                (''resources'', JObj [(''usage'', JObj [(''cpu'', JStr ''12m'')])])],
          JObj [(''name'', JStr ''proxy''), (''resources'', JObj [])]] [])]),
      (''flat'', JObj
         [(''metadata.name'', JStr ''web''),
          (''spec.containers.0.name'', JStr ''app''),
          (''spec.containers.0.resources.usage.cpu'', JStr ''12m''),
          (''spec.containers.1.name'', JStr ''proxy''),
          (''spec.containers.1.resources'', JObj [])])]"

definition db_row :: json where
  "db_row = JObj
     [(''metadata'', JObj [(''name'', JStr ''db'')]),
      (''spec'', JObj [(''containers'', JArr
         [JObj [(''name'', JStr ''pg''), (''resources'', JObj [])]] [])]),
      (''flat'', JObj
         [(''metadata.name'', JStr ''db''),
          (''spec.containers.0.name'', JStr ''pg''),
          (''spec.containers.0.resources'', JObj [])])]"


text \<open>The surroundings before the view exists: nothing registered, no timer, no row.\<close>

definition blank_world :: view where
  "blank_world =
     \<lparr>self = 0, comp = new_component, grid_rows = [], timers = [], console = [],
      listeners = [], bus_subs = [], next_token = 0\<rparr>"

definition pods_resource :: resource where
  "pods_resource = \<lparr>res_columns = [], res_command = Some sample_cmds, res_name = ''pods''\<rparr>"


section \<open>Staggered start of the commands\<close>

lemma schedule_map:
  "schedule d cs =
     map (\<lambda>i. \<lparr>delay = d + i * 1000,
                call = ExecuteCommandInCurrentNs (cmd_command (cs ! i)) (cmd_arguments (cs ! i)) True\<rparr>)
         [0..<length cs]"
proof (induction cs arbitrary: d)
  case Nil
  show ?case by simp
next
  case (Cons c cs)
  have shift: "[0..<length (c # cs)] = 0 # map Suc [0..<length cs]"
    by (simp add: upt_conv_Cons map_Suc_upt del: upt_Suc)
  show ?case
    unfolding shift by (simp add: Cons.IH [of "d + 1000"] comp_def)
qed

text \<open>
  C3: \<^verbatim>\<open>initialize\<close> sets one timer per command of the resource, in list order; the
  timer of the command at index \<open>i\<close> has delay \<open>i * 1000\<close> and calls
  \<^verbatim>\<open>executeCommandInCurrentNs(cmd.command, cmd.arguments, true)\<close>. Nothing else changes.
\<close>

theorem initialize_staggered:
  assumes "res_command (resource (comp s)) = Some cs"
  shows "initialize s =
           s\<lparr>timers := timers s @
                map (\<lambda>i. \<lparr>delay = i * 1000,
                           call = ExecuteCommandInCurrentNs
                                    (cmd_command (cs ! i)) (cmd_arguments (cs ! i)) True\<rparr>)
                    [0..<length cs]\<rparr>"
  using assms by (simp add: initialize_def schedule_map)

lemma sample_view_cmds: "res_command (resource (comp sample_view)) = Some sample_cmds"
  by (simp add: sample_view_def new_component_def)

theorem initialize_staggered_witness:
  "res_command (resource (comp sample_view)) = Some sample_cmds
   \<and> length sample_cmds = 3
   \<and> timers (initialize sample_view) =
       [\<lparr>delay = 0, call = ExecuteCommandInCurrentNs (JStr ''get_pods'') (JObj []) True\<rparr>,
        \<lparr>delay = 1000, call = ExecuteCommandInCurrentNs (JStr ''get_metrics'') (JObj []) True\<rparr>,
        \<lparr>delay = 2000, call = ExecuteCommandInCurrentNs (JStr ''get_deployments'') (JObj []) True\<rparr>]"
proof -
  have three: "[0..<length sample_cmds] = [0, 1, 2]"
    by (simp add: sample_cmds_def upt_conv_Cons)
  have "timers sample_view = []"
    by (simp add: sample_view_def)
  then show ?thesis
    using initialize_staggered [OF sample_view_cmds] sample_view_cmds
    by (simp add: three) (simp add: sample_cmds_def)
qed


section \<open>Lifecycle signals\<close>

lemma sample_signals:
  "escape_hit sample_env \<noteq> cluster_changed sample_env"
  "escape_hit sample_env \<noteq> ns_changed sample_env"
  "ns_changed sample_env \<noteq> cluster_changed sample_env"
  by (simp_all add: sample_env_def)

text \<open>
  C10: the signal \<^verbatim>\<open>escape_hit\<close> leaves the side bar hidden and changes no other field of
  the component or of its surroundings; handling it a second time changes nothing.
\<close>

theorem escape_hit_hides_sidebar:
  assumes "escape_hit env \<noteq> cluster_changed env" and "escape_hit env \<noteq> ns_changed env"
  shows "on_app_event env (JStr (escape_hit env)) s =
           s\<lparr>comp := (comp s)\<lparr>isSideBarHidden := True\<rparr>\<rparr>
         \<and> on_app_event env (JStr (escape_hit env)) (on_app_event env (JStr (escape_hit env)) s) =
           on_app_event env (JStr (escape_hit env)) s"
  using assms by (simp add: on_app_event_def)

theorem escape_hit_hides_sidebar_witness:
  "escape_hit sample_env \<noteq> cluster_changed sample_env
   \<and> escape_hit sample_env \<noteq> ns_changed sample_env
   \<and> \<not> isSideBarHidden (comp sample_view)
   \<and> isSideBarHidden (comp (on_app_event sample_env (JStr ''escape_hit'') sample_view))
   \<and> on_app_event sample_env (JStr ''escape_hit'') sample_view =
       sample_view\<lparr>comp := (comp sample_view)\<lparr>isSideBarHidden := True\<rparr>\<rparr>"
proof -
  have name: "escape_hit sample_env = ''escape_hit''"
    by (simp add: sample_env_def)
  have "\<not> isSideBarHidden (comp sample_view)"
    by (simp add: sample_view_def)
  then show ?thesis
    using escape_hit_hides_sidebar [OF sample_signals(1) sample_signals(2), of sample_view]
      sample_signals
    by (simp add: name)
qed

text \<open>
  C4, as the code has it: on \<^verbatim>\<open>cluster_changed\<close> and on \<^verbatim>\<open>ns_changed\<close> the view sets
  \<^verbatim>\<open>isLoading\<close>, replaces \<^verbatim>\<open>rowData$\<close> by an empty observable and empties the grid's rows;
  only on \<^verbatim>\<open>ns_changed\<close> does it start its initial commands again. On \<^verbatim>\<open>cluster_changed\<close>
  no timer is set.
\<close>

theorem context_change_invalidates:
  assumes "ns_changed env \<noteq> cluster_changed env"
  shows "on_app_event env (JStr (cluster_changed env)) s =
           s\<lparr>comp := (comp s)\<lparr>isLoading := True, rowData_obs := ObsFrom []\<rparr>, grid_rows := []\<rparr>
         \<and> on_app_event env (JStr (ns_changed env)) s =
           initialize
             (s\<lparr>comp := (comp s)\<lparr>isLoading := True, rowData_obs := ObsFrom []\<rparr>, grid_rows := []\<rparr>)"
  using assms by (simp add: on_app_event_def clearTable_def set_loading_def)

theorem context_change_invalidates_witness:
  "ns_changed sample_env \<noteq> cluster_changed sample_env
   \<and> timers (on_app_event sample_env (JStr (cluster_changed sample_env)) sample_view) = []
   \<and> map delay (timers (on_app_event sample_env (JStr (ns_changed sample_env)) sample_view)) =
       [0, 1000, 2000]
   \<and> isLoading (comp (on_app_event sample_env (JStr (ns_changed sample_env)) sample_view))
   \<and> grid_rows (on_app_event sample_env (JStr (ns_changed sample_env)) sample_view) = []"
  using context_change_invalidates [OF sample_signals(3), of sample_view] sample_signals(3)
  by (simp add: initialize_def) (simp add: sample_view_def new_component_def sample_cmds_def)

theorem cluster_changed_counterexample:
  "res_command (resource (comp sample_view)) = Some sample_cmds
   \<and> timers (on_app_event sample_env (JStr ''cluster_changed'') sample_view) = timers sample_view
   \<and> timers (on_app_event sample_env (JStr ''cluster_changed'') sample_view) \<noteq>
       timers sample_view @ schedule 0 sample_cmds"
  by (simp add: on_app_event_def sample_env_def clearTable_def set_loading_def sample_view_cmds)
     (simp add: sample_cmds_def)

section \<open>Events that leave the table alone\<close>

lemma lodash_get_get_field:
  "get_field v k = Inr w \<Longrightarrow> w = lodash_get v k"
  by (cases v) auto

lemma load_results_neither:
  assumes "\<not> truthy (lodash_get results ''items'')"
    and "\<not> (truthy (lodash_get results ''resource'') \<and> truthy (lodash_get results ''metrics''))"
  shows "load_results env results = Inl TypeError \<or> load_results env results = Inr (results, [])"
proof (cases "get_field results ''items''")
  case (Inl e)
  then have "e = TypeError" by (cases results) auto
  with Inl show ?thesis by (simp add: load_results_def and_then_def)
next
  case (Inr items)
  then obtain kvs_or where fields:
    "get_field results ''items'' = Inr (lodash_get results ''items'')"
    "get_field results ''resource'' = Inr (lodash_get results ''resource'')"
    "get_field results ''metrics'' = Inr (lodash_get results ''metrics'')"
    by (cases results) auto
  with assms show ?thesis
    by (auto simp add: load_results_def and_then_def)
qed

lemma handleEvent_other_name:
  assumes "ev_name ev \<noteq> JStr (app_command_result env)"
  shows "handleEvent env ev s = (snd (parse_payload env (ev_payload ev) s), None)"
  using assms by (simp add: handleEvent_def Let_def split: prod.splits)

lemma parse_payload_frame: "(snd (parse_payload env p s))\<lparr>console := console s\<rparr> = s"
  by (simp add: parse_payload_def split: option.splits)

lemma handleEvent_neither:
  assumes parsed: "JSON_parse env (lodash_get (ev_payload ev) ''data'') = Some results"
    and no_items: "\<not> truthy (lodash_get results ''items'')"
    and no_pair: "\<not> (truthy (lodash_get results ''resource'')
                      \<and> truthy (lodash_get results ''metrics''))"
  shows "fst (handleEvent env ev s) = s"
proof (cases "ev_name ev = JStr (app_command_result env)")
  case False
  then show ?thesis
    by (simp add: handleEvent_other_name parse_payload_def parsed)
next
  case True
  have pp: "parse_payload env (ev_payload ev) s = (results, s)"
    by (simp add: parse_payload_def parsed)
  from load_results_neither [OF no_items no_pair, of env]
  show ?thesis
  proof
    assume "load_results env results = Inl TypeError"
    then show ?thesis by (simp add: handleEvent_def pp True)
  next
    assume lr: "load_results env results = Inr (results, [])"
    show ?thesis
    proof (cases "get_field results ''items''")
      case (Inl e)
      then show ?thesis by (simp add: handleEvent_def pp True lr)
    next
      case (Inr items)
      with no_items have "\<not> truthy items"
        using lodash_get_get_field by blast
      with Inr show ?thesis by (simp add: handleEvent_def pp True lr)
    qed
  qed
qed

text \<open>
  C9: when the event's name is not the result channel, or when its data parses and the
  parsed value has no (truthy) \<^verbatim>\<open>items\<close> and not both \<^verbatim>\<open>resource\<close> and \<^verbatim>\<open>metrics\<close>,
  \<^verbatim>\<open>handleEvent\<close> assigns to no field of the component: apart from the console, the
  state after it is the state before it.
\<close>

theorem handleEvent_frame:
  assumes "ev_name ev \<noteq> JStr (app_command_result env)
           \<or> (JSON_parse env (lodash_get (ev_payload ev) ''data'') = Some results
               \<and> \<not> truthy (lodash_get results ''items'')
               \<and> \<not> (truthy (lodash_get results ''resource'')
                    \<and> truthy (lodash_get results ''metrics'')))"
  shows "(fst (handleEvent env ev s))\<lparr>console := console s\<rparr> = s"
proof (cases "ev_name ev = JStr (app_command_result env)")
  case False
  then show ?thesis
    by (simp add: handleEvent_other_name parse_payload_frame)
next
  case True
  with assms have "fst (handleEvent env ev s) = s"
    by (auto intro: handleEvent_neither)
  then show ?thesis by simp
qed

lemma sample_parse_other:
  "sample_parse (JStr other_text) = Some (JObj [(''namespaces'', JArr [JStr ''default''] [])])"
  by (simp add: sample_parse_def other_text_def pods_text_def metrics_text_def joined_text_def
      db_only_text_def resource_only_text_def quoted_def)

theorem handleEvent_frame_witness:
  "ev_name (result_event other_text) = JStr (app_command_result sample_env)
   \<and> JSON_parse sample_env (lodash_get (ev_payload (result_event other_text)) ''data'') =
       Some (JObj [(''namespaces'', JArr [JStr ''default''] [])])
   \<and> (fst (handleEvent sample_env (result_event other_text) sample_view))
        \<lparr>console := console sample_view\<rparr> = sample_view
   \<and> ev_name ((result_event pods_text)\<lparr>ev_name := JStr ''app_error''\<rparr>) \<noteq>
       JStr (app_command_result sample_env)
   \<and> (fst (handleEvent sample_env ((result_event pods_text)\<lparr>ev_name := JStr ''app_error''\<rparr>)
        sample_view))\<lparr>console := console sample_view\<rparr> = sample_view"
proof -
  let ?doc = "JObj [(''namespaces'', JArr [JStr ''default''] [])]"
  have parsed: "JSON_parse sample_env (lodash_get (ev_payload (result_event other_text)) ''data'')
                  = Some ?doc"
    by (simp add: result_event_def own_prop_def sample_env_def sample_parse_other)
  have shape: "\<not> truthy (lodash_get ?doc ''items'')
               \<and> \<not> (truthy (lodash_get ?doc ''resource'') \<and> truthy (lodash_get ?doc ''metrics''))"
    by (simp add: own_prop_def)
  have other: "ev_name ((result_event pods_text)\<lparr>ev_name := JStr ''app_error''\<rparr>) \<noteq>
                 JStr (app_command_result sample_env)"
    by (simp add: sample_env_def)
  have name: "ev_name (result_event other_text) = JStr (app_command_result sample_env)"
    by (simp add: result_event_def sample_env_def)
  show ?thesis
    using handleEvent_frame [of "result_event other_text" sample_env ?doc sample_view]
      handleEvent_frame [of "(result_event pods_text)\<lparr>ev_name := JStr ''app_error''\<rparr>"
        sample_env ?doc sample_view]
      parsed shape other name
    by simp
qed

section \<open>A payload that is not JSON\<close>

lemma handleEvent_unparsable:
  assumes "JSON_parse env (lodash_get (ev_payload ev) ''data'') = None"
    and "ev_name ev = JStr (app_command_result env)"
  shows "handleEvent env ev s =
           (s\<lparr>console := console s @ [''Failed to parse payload'']\<rparr>, Some TypeError)"
  using assms by (simp add: handleEvent_def parse_payload_def load_results_def and_then_def)

lemma sample_parse_not_json: "sample_parse (JStr ''not json'') = None"
  by (simp add: sample_parse_def other_text_def pods_text_def metrics_text_def joined_text_def
      db_only_text_def resource_only_text_def quoted_def)

text \<open>
  C2: a result event whose data is not JSON. The parse failure is caught and logged and
  \<^verbatim>\<open>results\<close> stays undefined; the event carries the name of the result channel, so the
  next statement reads \<^verbatim>\<open>results.items\<close> and \<^verbatim>\<open>handleEvent\<close> throws a TypeError.
\<close>

theorem unparsable_result_throws:
  "handleEvent sample_env (result_event ''not json'') sample_view =
     (sample_view\<lparr>console := [''Failed to parse payload'']\<rparr>, Some TypeError)"
proof -
  have "JSON_parse sample_env (lodash_get (ev_payload (result_event ''not json'')) ''data'') = None"
    by (simp add: result_event_def own_prop_def sample_env_def sample_parse_not_json)
  moreover have "ev_name (result_event ''not json'') = JStr (app_command_result sample_env)"
    by (simp add: result_event_def sample_env_def)
  moreover have "console sample_view = []"
    by (simp add: sample_view_def)
  ultimately show ?thesis
    by (simp add: handleEvent_unparsable)
qed


section \<open>handleEvent on well-formed results\<close>

text \<open>
  On a result in one of the two shapes whose items and metrics entries are well formed,
  no statement of \<^verbatim>\<open>handleEvent\<close> throws, and the rows are the items merged as the
  specification says, each with its \<^verbatim>\<open>flat\<close> field.
\<close>

lemma own_prop_update [simp]:
  "own_prop (AList.update k v kvs) k' = (if k' = k then v else own_prop kvs k')"
  by (simp add: own_prop_def update_conv')

lemma get_field_field:
  "get_field v k = (if v = JUndef \<or> v = JNull then Inl TypeError else Inr (field v k))"
  by (cases v) simp_all

lemma has_props_field: "field v k \<noteq> JUndef \<Longrightarrow> has_props v"
  by (cases v) simp_all

lemma has_props_not_nullish: "has_props v \<Longrightarrow> v \<noteq> JUndef \<and> v \<noteq> JNull \<and> truthy v"
  by (cases v) simp_all

lemma is_obj_props: "is_obj v \<Longrightarrow> has_props v"
  by (cases v) simp_all

lemma is_obj_field_props: "is_obj (field v k) \<Longrightarrow> has_props v"
  by (cases v) simp_all

lemma field_list_live:
  "field v k = JArr xs ps \<Longrightarrow> v \<noteq> JUndef \<and> v \<noteq> JNull \<and> truthy v"
  by (cases v) simp_all

lemma set_field_props: "has_props v \<Longrightarrow> set_field v k w = Inr (put_field v k w)"
  by (cases v) simp_all

lemma field_put_field:
  "field (put_field v k w) k' = (if has_props v \<and> k' = k then w else field v k')"
  by (cases v) simp_all

lemma has_props_put_field [simp]: "has_props (put_field v k w) = has_props v"
  by (cases v) simp_all

lemma mmap_get_cases: "mmap_get mm k = JUndef \<or> mmap_get mm k \<in> set (map snd mm)"
proof (induction mm)
  case Nil
  show ?case by simp
next
  case (Cons p mm)
  obtain k' v where p: "p = (k', v)" by (cases p)
  from Cons.IH show ?case
    by (cases "same_key k' k") (auto simp: p)
qed

lemma collect_metrics_named:
  assumes "list_all (\<lambda>m. is_obj (field m ''metadata'')) ms"
  shows "collect_metrics ms mm = Inr (metrics_map ms @ mm)"
  using assms
proof (induction ms arbitrary: mm)
  case Nil
  show ?case by (simp add: metrics_map_def)
next
  case (Cons m ms)
  from Cons.prems have md: "is_obj (field m ''metadata'')"
    and rest: "list_all (\<lambda>m. is_obj (field m ''metadata'')) ms"
    by simp_all
  have "get_field m ''metadata'' = Inr (field m ''metadata'')"
    using has_props_not_nullish [OF is_obj_field_props [OF md]] by (simp add: get_field_field)
  moreover have "get_field (field m ''metadata'') ''name'' =
      Inr (field (field m ''metadata'') ''name'')"
    using has_props_not_nullish [OF is_obj_props [OF md]] by (simp add: get_field_field)
  ultimately show ?case
    by (simp add: and_then_def mmap_set_def Cons.IH [OF rest] metrics_map_def)
qed

lemma has_elements_list:
  "has_elements env (JArr xs ps) = Inr (xs \<noteq> [])" "has_elements env JUndef = Inr False"
  by (simp_all add: has_elements_def)

lemma pod_like_containers:
  assumes "pod_like item"
  shows "field (field item ''spec'') ''containers'' = JUndef
         \<or> (\<exists>ps. field (field item ''spec'') ''containers'' = JArr [] ps)
         \<or> (\<exists>c rest ps. field (field item ''spec'') ''containers'' = JArr (c # rest) ps
               \<and> is_obj (field c ''resources''))"
  using assms by (auto simp: pod_like_def split: json.splits list.splits)

lemma metric_like_containers:
  assumes "metric_like m"
  shows "field m ''containers'' = JUndef
         \<or> (\<exists>ps. field m ''containers'' = JArr [] ps)
         \<or> (\<exists>mc rest ps. field m ''containers'' = JArr (mc # rest) ps \<and> is_obj mc)"
  using assms by (auto simp: metric_like_def split: json.splits list.splits)

lemma metric_like_live:
  assumes "metric_like m"
  shows "m \<noteq> JUndef \<and> m \<noteq> JNull \<and> truthy m"
proof -
  from assms have "is_obj (field m ''metadata'')"
    by (simp add: metric_like_def)
  then have "has_props m"
    by (rule is_obj_field_props)
  then show ?thesis
    by (rule has_props_not_nullish)
qed

lemma metric_usable_like:
  assumes "metric = JUndef \<or> metric_like metric"
  shows "metric_usable env metric =
           Inr (case field metric ''containers'' of JArr (mc # rest) ps \<Rightarrow> True | _ \<Rightarrow> False)"
  using assms
proof
  assume "metric = JUndef"
  then show ?thesis by (simp add: metric_usable_def)
next
  assume ml: "metric_like metric"
  then have live: "metric \<noteq> JUndef \<and> metric \<noteq> JNull \<and> truthy metric"
    by (rule metric_like_live)
  from metric_like_containers [OF ml] live show ?thesis
    by (auto simp: metric_usable_def get_field_field and_then_def has_elements_list)
qed

lemma attach_usage_merged:
  assumes pod: "pod_like item" and metrics: "list_all metric_like (map snd mm)"
  shows "attach_usage env mm item = Inr (merged mm item)"
proof -
  let ?spec = "field item ''spec''"
  let ?md = "field item ''metadata''"
  let ?cs = "field ?spec ''containers''"
  let ?metric = "mmap_get mm (field ?md ''name'')"
  from pod have spec: "is_obj ?spec" and md: "is_obj ?md"
    by (simp_all add: pod_like_def)
  have item_live: "item \<noteq> JUndef \<and> item \<noteq> JNull \<and> truthy item"
    by (rule has_props_not_nullish [OF is_obj_field_props [OF spec]])
  have spec_live: "?spec \<noteq> JUndef \<and> ?spec \<noteq> JNull \<and> truthy ?spec"
    by (rule has_props_not_nullish [OF is_obj_props [OF spec]])
  have md_live: "?md \<noteq> JUndef \<and> ?md \<noteq> JNull \<and> truthy ?md"
    by (rule has_props_not_nullish [OF is_obj_props [OF md]])
  have metric_shape: "?metric = JUndef \<or> metric_like ?metric"
    using mmap_get_cases [of mm "field ?md ''name''"] metrics
    by (auto simp: list_all_iff)
  note usable = metric_usable_like [OF metric_shape, of env]
  from pod_like_containers [OF pod] show ?thesis
  proof (elim disjE exE conjE)
    assume "?cs = JUndef"
    then show ?thesis
      using item_live spec_live
      by (simp add: attach_usage_def merged_def get_field_field and_then_def has_elements_list)
  next
    fix ps
    assume "?cs = JArr [] ps"
    then show ?thesis
      using item_live spec_live
      by (simp add: attach_usage_def merged_def get_field_field and_then_def has_elements_list)
  next
    fix c rest ps
    assume cs: "?cs = JArr (c # rest) ps" and r: "is_obj (field c ''resources'')"
    have c_live: "c \<noteq> JUndef \<and> c \<noteq> JNull \<and> truthy c"
      by (rule has_props_not_nullish [OF is_obj_field_props [OF r]])
    have store: "set_field (field c ''resources'') ''usage'' u =
        Inr (put_field (field c ''resources'') ''usage'' u)" for u
      by (rule set_field_props [OF is_obj_props [OF r]])
    from metric_shape show ?thesis
    proof
      assume "?metric = JUndef"
      then show ?thesis
        using item_live spec_live md_live cs
        by (simp add: attach_usage_def merged_def get_field_field and_then_def
            has_elements_list metric_usable_def)
    next
      assume ml: "metric_like ?metric"
      then have metric_live: "?metric \<noteq> JUndef \<and> ?metric \<noteq> JNull \<and> truthy ?metric"
        by (rule metric_like_live)
      from metric_like_containers [OF ml] show ?thesis
      proof (elim disjE exE conjE)
        assume "field ?metric ''containers'' = JUndef"
        then show ?thesis
          using item_live spec_live md_live cs
          by (simp add: attach_usage_def merged_def get_field_field and_then_def
              has_elements_list usable)
      next
        fix mps
        assume "field ?metric ''containers'' = JArr [] mps"
        then show ?thesis
          using item_live spec_live md_live cs
          by (simp add: attach_usage_def merged_def get_field_field and_then_def
              has_elements_list usable)
      next
        fix mc mrest mps
        assume mcs: "field ?metric ''containers'' = JArr (mc # mrest) mps" and mc: "is_obj mc"
        have mc_live: "mc \<noteq> JUndef \<and> mc \<noteq> JNull \<and> truthy mc"
          by (rule has_props_not_nullish [OF is_obj_props [OF mc]])
        show ?thesis
          using item_live spec_live md_live c_live metric_live mc_live cs mcs
          by (simp add: attach_usage_def merged_def get_field_field and_then_def
              has_elements_list usable store with_usage_def)
      qed
    qed
  qed
qed

lemma load_results_items:
  assumes "field results ''items'' = JArr items ps"
  shows "load_results env results = Inr (results, [])"
proof -
  from assms have "results \<noteq> JUndef \<and> results \<noteq> JNull \<and> truthy results"
    by (rule field_list_live)
  with assms show ?thesis
    by (simp add: load_results_def get_field_field and_then_def)
qed

lemma truthy_field_props: "truthy (field v k) \<Longrightarrow> has_props v"
  by (cases v) simp_all

lemma load_results_joined:
  assumes no_items: "\<not> truthy (field results ''items'')"
    and res: "truthy (field results ''resource'')"
    and met: "truthy (field results ''metrics'')"
    and parsed: "JSON_parse env (field results ''resource'') = Some parsed"
    and items: "field parsed ''items'' = JArr items []"
    and metrics: "JSON_parse env (field results ''metrics'') = Some metrics"
    and ms: "field metrics ''items'' = JArr ms []"
    and named: "list_all (\<lambda>m. is_obj (field m ''metadata'')) ms"
  shows "load_results env results =
           Inr (put_field results ''items'' (JArr items []), metrics_map ms)"
proof -
  have results: "results \<noteq> JUndef \<and> results \<noteq> JNull \<and> truthy results"
    by (rule has_props_not_nullish [OF truthy_field_props [OF res]])
  have store: "set_field results ''items'' w = Inr (put_field results ''items'' w)" for w
    by (rule set_field_props [OF truthy_field_props [OF res]])
  from items have p: "parsed \<noteq> JUndef \<and> parsed \<noteq> JNull \<and> truthy parsed"
    by (rule field_list_live)
  from ms have m: "metrics \<noteq> JUndef \<and> metrics \<noteq> JNull \<and> truthy metrics"
    by (rule field_list_live)
  from no_items res met results p m show ?thesis
    by (simp add: load_results_def get_field_field and_then_def parse_or_throw_def
        parsed metrics items ms store collect_metrics_named [OF named])
qed

lemma handleEvent_carries:
  assumes "carries env ev items mm"
  shows "handleEvent env ev s =
           (case handle_items env mm items of
              Inl e \<Rightarrow> (s, Some e)
            | Inr rows \<Rightarrow> (show_rows rows s, None))"
proof -
  from assms have name: "ev_name ev = JStr (app_command_result env)"
    by (simp add: carries_def)
  from assms obtain results where
    parsed: "JSON_parse env (field (ev_payload ev) ''data'') = Some results"
    by (auto simp: carries_def split: option.splits)
  have pp: "parse_payload env (ev_payload ev) s = (results, s)"
    by (simp add: parse_payload_def parsed)
  from assms parsed consider
    (direct) "field results ''items'' = JArr items []" "mm = []"
  | (joined) parsed' metrics ms where
      "\<not> truthy (field results ''items'')" "truthy (field results ''resource'')"
      "truthy (field results ''metrics'')"
      "JSON_parse env (field results ''resource'') = Some parsed'"
      "field parsed' ''items'' = JArr items []"
      "JSON_parse env (field results ''metrics'') = Some metrics"
      "field metrics ''items'' = JArr ms []"
      "list_all (\<lambda>m. is_obj (field m ''metadata'')) ms" "mm = metrics_map ms"
    by (auto simp: carries_def split: option.splits json.splits)
  then show ?thesis
  proof cases
    case direct
    from direct(1) have live: "results \<noteq> JUndef \<and> results \<noteq> JNull \<and> truthy results"
      by (rule field_list_live)
    have lr: "load_results env results = Inr (results, [])"
      using direct(1) by (rule load_results_items)
    show ?thesis
      using live direct
      by (simp add: handleEvent_def pp name lr get_field_field and_then_def)
  next
    case joined
    let ?results' = "put_field results ''items'' (JArr items [])"
    have props: "has_props results"
      by (rule truthy_field_props [OF joined(2)])
    have lr: "load_results env results = Inr (?results', mm)"
      using load_results_joined [OF joined(1-8)] joined(9) by simp
    have live: "?results' \<noteq> JUndef \<and> ?results' \<noteq> JNull"
      using has_props_not_nullish [of ?results'] props by simp
    have "field ?results' ''items'' = JArr items []"
      using props by (simp add: field_put_field)
    with live show ?thesis
      by (simp add: handleEvent_def pp name lr get_field_field and_then_def)
  qed
qed

lemma merged_props:
  assumes "has_props item"
  shows "has_props (merged mm item)"
  using assms
  by (simp add: merged_def with_usage_def Let_def split: json.splits list.splits)

lemma pod_like_props: "pod_like item \<Longrightarrow> has_props item"
  by (auto simp: pod_like_def dest: is_obj_field_props)

lemma handle_item_pod:
  assumes "pod_like item" and "list_all metric_like (map snd mm)"
  shows "handle_item env mm item = Inr (with_flat env (merged mm item))"
proof -
  from assms(1) have "has_props (merged mm item)"
    by (simp add: merged_props pod_like_props)
  then show ?thesis
    by (simp add: handle_item_def attach_usage_merged [OF assms] and_then_def with_flat_def
        set_field_props)
qed

lemma handle_items_pods:
  assumes "list_all pod_like items" and "list_all metric_like (map snd mm)"
  shows "handle_items env mm items = Inr (map (\<lambda>item. with_flat env (merged mm item)) items)"
  using assms(1)
  by (induction items) (simp_all add: handle_item_pod [OF _ assms(2)] and_then_def)

lemma handleEvent_pods:
  assumes "carries env ev items mm"
    and "list_all pod_like items" and "list_all metric_like (map snd mm)"
  shows "handleEvent env ev s =
           (show_rows (map (\<lambda>item. with_flat env (merged mm item)) items) s, None)"
  by (simp add: handleEvent_carries [OF assms(1)] handle_items_pods [OF assms(2,3)])

section \<open>The two payload shapes\<close>

lemma merged_no_metrics: "merged [] item = item"
  by (simp add: merged_def split: json.splits list.splits)

lemma metrics_map_all: "list_all P (map snd (metrics_map ms)) = list_all P ms"
  by (simp add: metrics_map_def list_all_iff comp_def)

text \<open>
  C6: the parsed data of a result event is read in two shapes. When it has a list
  \<^verbatim>\<open>items\<close>, that list is processed, with an empty metrics map, and the outcome is shown:
  \<^verbatim>\<open>rowData$\<close> and \<^verbatim>\<open>rowData\<close> become the processed list and \<^verbatim>\<open>isLoading\<close> false. When it
  has no \<^verbatim>\<open>items\<close> but \<^verbatim>\<open>resource\<close> and \<^verbatim>\<open>metrics\<close>, both are parsed, the list processed
  and shown is the \<^verbatim>\<open>items\<close> of the parsed resource, and the map is the parsed metrics'
  entries keyed by name. In both shapes well-formed items are shown one row per item,
  merged with the map and with their \<^verbatim>\<open>flat\<close> field. With neither shape the state is
  left as it is.
\<close>

theorem payload_shapes:
  assumes "ev_name ev = JStr (app_command_result env)"
    and "JSON_parse env (field (ev_payload ev) ''data'') = Some results"
  shows "(field results ''items'' = JArr items [] \<longrightarrow>
            handleEvent env ev s =
              (case handle_items env [] items of
                 Inl e \<Rightarrow> (s, Some e)
               | Inr rows \<Rightarrow>
                   (s\<lparr>comp := (comp s)\<lparr>rowData_obs := ObsFrom rows, rowData := rows,
                                        isLoading := False\<rparr>\<rparr>, None))
            \<and> (list_all pod_like items \<longrightarrow>
                 handleEvent env ev s =
                   (s\<lparr>comp := (comp s)
                        \<lparr>rowData_obs := ObsFrom (map (with_flat env) items),
                         rowData := map (with_flat env) items,
                         isLoading := False\<rparr>\<rparr>, None)))
         \<and> (\<not> truthy (field results ''items'')
              \<and> truthy (field results ''resource'') \<and> truthy (field results ''metrics'')
              \<and> JSON_parse env (field results ''resource'') = Some parsed
              \<and> field parsed ''items'' = JArr items []
              \<and> JSON_parse env (field results ''metrics'') = Some metrics
              \<and> field metrics ''items'' = JArr ms []
              \<and> list_all (\<lambda>m. is_obj (field m ''metadata'')) ms \<longrightarrow>
            handleEvent env ev s =
              (case handle_items env (metrics_map ms) items of
                 Inl e \<Rightarrow> (s, Some e)
               | Inr rows \<Rightarrow>
                   (s\<lparr>comp := (comp s)\<lparr>rowData_obs := ObsFrom rows, rowData := rows,
                                        isLoading := False\<rparr>\<rparr>, None))
            \<and> (list_all pod_like items \<and> list_all metric_like ms \<longrightarrow>
                 handleEvent env ev s =
                   (s\<lparr>comp := (comp s)
                        \<lparr>rowData_obs :=
                           ObsFrom (map (\<lambda>item. with_flat env (merged (metrics_map ms) item)) items),
                         rowData := map (\<lambda>item. with_flat env (merged (metrics_map ms) item)) items,
                         isLoading := False\<rparr>\<rparr>, None)))
         \<and> (\<not> truthy (field results ''items'')
              \<and> \<not> (truthy (field results ''resource'') \<and> truthy (field results ''metrics'')) \<longrightarrow>
            fst (handleEvent env ev s) = s)"
proof (intro conjI impI)
  assume "field results ''items'' = JArr items []"
  with assms have c: "carries env ev items []"
    by (simp add: carries_def)
  show "handleEvent env ev s =
      (case handle_items env [] items of
         Inl e \<Rightarrow> (s, Some e)
       | Inr rows \<Rightarrow>
           (s\<lparr>comp := (comp s)\<lparr>rowData_obs := ObsFrom rows, rowData := rows,
                                isLoading := False\<rparr>\<rparr>, None))"
    by (simp add: handleEvent_carries [OF c] show_rows_def cong: sum.case_cong)
  assume "list_all pod_like items"
  then show "handleEvent env ev s =
      (s\<lparr>comp := (comp s)
           \<lparr>rowData_obs := ObsFrom (map (with_flat env) items),
            rowData := map (with_flat env) items,
            isLoading := False\<rparr>\<rparr>, None)"
    by (simp add: handleEvent_pods [OF c] show_rows_def merged_no_metrics)
next
  assume "\<not> truthy (field results ''items'')
      \<and> truthy (field results ''resource'') \<and> truthy (field results ''metrics'')
      \<and> JSON_parse env (field results ''resource'') = Some parsed
      \<and> field parsed ''items'' = JArr items []
      \<and> JSON_parse env (field results ''metrics'') = Some metrics
      \<and> field metrics ''items'' = JArr ms []
      \<and> list_all (\<lambda>m. is_obj (field m ''metadata'')) ms"
  with assms have c: "carries env ev items (metrics_map ms)"
    by (simp add: carries_def)
  show "handleEvent env ev s =
      (case handle_items env (metrics_map ms) items of
         Inl e \<Rightarrow> (s, Some e)
       | Inr rows \<Rightarrow>
           (s\<lparr>comp := (comp s)\<lparr>rowData_obs := ObsFrom rows, rowData := rows,
                                isLoading := False\<rparr>\<rparr>, None))"
    by (simp add: handleEvent_carries [OF c] show_rows_def cong: sum.case_cong)
  assume "list_all pod_like items \<and> list_all metric_like ms"
  then show "handleEvent env ev s =
      (s\<lparr>comp := (comp s)
           \<lparr>rowData_obs :=
              ObsFrom (map (\<lambda>item. with_flat env (merged (metrics_map ms) item)) items),
            rowData := map (\<lambda>item. with_flat env (merged (metrics_map ms) item)) items,
            isLoading := False\<rparr>\<rparr>, None)"
    by (simp add: handleEvent_pods [OF c] show_rows_def metrics_map_all)
next
  assume "\<not> truthy (field results ''items'')
      \<and> \<not> (truthy (field results ''resource'') \<and> truthy (field results ''metrics''))"
  with assms(2) show "fst (handleEvent env ev s) = s"
    by (auto intro: handleEvent_neither)
qed

section \<open>The sample data, evaluated\<close>

lemma sample_parse_pods:
  "sample_parse (JStr pods_text) = Some (JObj [(''items'', JArr [web_pod, db_pod] [])])"
  by (simp add: sample_parse_def)

lemma sample_parse_metrics:
  "sample_parse (JStr metrics_text) = Some (JObj [(''items'', JArr [web_metric] [])])"
  by (simp add: sample_parse_def pods_text_def metrics_text_def)

lemma sample_parse_joined:
  "sample_parse (JStr joined_text) =
     Some (JObj [(''resource'', JStr pods_text), (''metrics'', JStr metrics_text)])"
proof -
  have "joined_text \<noteq> pods_text" "joined_text \<noteq> metrics_text"
    by (simp_all add: joined_text_def pods_text_def metrics_text_def)
  then show ?thesis
    by (simp add: sample_parse_def)
qed

lemma sample_parse_db_only:
  "sample_parse (JStr db_only_text) = Some (JObj [(''items'', JArr [db_pod] [])])"
proof -
  have "db_only_text \<noteq> pods_text" "db_only_text \<noteq> metrics_text" "db_only_text \<noteq> joined_text"
    by (simp_all add: db_only_text_def joined_text_def pods_text_def metrics_text_def)
  then show ?thesis
    by (simp add: sample_parse_def)
qed

lemma sample_parse_resource_only:
  "sample_parse (JStr resource_only_text) = Some (JObj [(''resource'', JStr pods_text)])"
proof -
  have "resource_only_text \<noteq> pods_text" "resource_only_text \<noteq> metrics_text"
    "resource_only_text \<noteq> joined_text" "resource_only_text \<noteq> db_only_text"
    by (simp_all add: resource_only_text_def db_only_text_def joined_text_def pods_text_def
        metrics_text_def quoted_def)
  then show ?thesis
    by (simp add: sample_parse_def)
qed

lemma sample_texts_truthy: "pods_text \<noteq> []" "metrics_text \<noteq> []"
  by (simp_all add: pods_text_def metrics_text_def)

lemma sample_name: "ev_name (result_event t) = JStr (app_command_result sample_env)"
  by (simp add: result_event_def sample_env_def)

lemma sample_data:
  "JSON_parse sample_env (field (ev_payload (result_event t)) ''data'') = sample_parse (JStr t)"
  by (simp add: result_event_def sample_env_def own_prop_def)

lemma sample_carries_joined:
  "carries sample_env (result_event joined_text) [web_pod, db_pod] (metrics_map [web_metric])"
  by (simp add: carries_def result_event_def sample_env_def own_prop_def sample_parse_joined
      sample_parse_pods sample_parse_metrics sample_texts_truthy web_metric_def)

lemma sample_carries_direct:
  "carries sample_env (result_event db_only_text) [db_pod] []"
  by (simp add: carries_def result_event_def sample_env_def own_prop_def sample_parse_db_only)

lemma sample_pods: "list_all pod_like [web_pod, db_pod]"
  by (simp add: pod_like_def web_pod_def db_pod_def own_prop_def)

lemma sample_metrics: "list_all metric_like (map snd (metrics_map [web_metric]))"
  by (simp add: metric_like_def metrics_map_def web_metric_def own_prop_def)

lemma sample_merged:
  "merged (metrics_map [web_metric]) web_pod = web_pod_merged"
  "merged (metrics_map [web_metric]) db_pod = db_pod"
  "merged [] db_pod = db_pod"
  by (simp_all add: merged_def metrics_map_def with_usage_def web_metric_def web_pod_def
      db_pod_def web_pod_merged_def own_prop_def)

lemma sample_rows:
  "with_flat sample_env web_pod_merged = web_row"
  "with_flat sample_env db_pod = db_row"
  by (simp_all add: with_flat_def sample_env_def sample_flatten_def web_pod_merged_def
      db_pod_def web_row_def db_row_def)

lemma sample_handle_joined:
  "handleEvent sample_env (result_event joined_text) sample_view =
     (show_rows [web_row, db_row] sample_view, None)"
  by (simp add: handleEvent_pods [OF sample_carries_joined sample_pods sample_metrics]
      sample_merged sample_rows)

theorem payload_shapes_witness:
  "handleEvent sample_env (result_event db_only_text) sample_view =
     (sample_view\<lparr>comp := (comp sample_view)
        \<lparr>rowData_obs := ObsFrom [db_row], rowData := [db_row], isLoading := False\<rparr>\<rparr>, None)
   \<and> handleEvent sample_env (result_event joined_text) sample_view =
     (sample_view\<lparr>comp := (comp sample_view)
        \<lparr>rowData_obs := ObsFrom [web_row, db_row], rowData := [web_row, db_row],
         isLoading := False\<rparr>\<rparr>, None)
   \<and> fst (handleEvent sample_env (result_event other_text) sample_view) = sample_view"
proof -
  let ?direct = "JObj [(''items'', JArr [db_pod] [])]"
  let ?joined = "JObj [(''resource'', JStr pods_text), (''metrics'', JStr metrics_text)]"
  let ?other = "JObj [(''namespaces'', JArr [JStr ''default''] [])]"
  let ?pods = "JObj [(''items'', JArr [web_pod, db_pod] [])]"
  let ?metrics = "JObj [(''items'', JArr [web_metric] [])]"
  have parse: "\<And>v. JSON_parse sample_env v = sample_parse v"
    by (simp add: sample_env_def)
  have d1: "JSON_parse sample_env (field (ev_payload (result_event db_only_text)) ''data'') =
      Some ?direct"
    by (simp add: sample_data sample_parse_db_only)
  have d2: "JSON_parse sample_env (field (ev_payload (result_event joined_text)) ''data'') =
      Some ?joined"
    by (simp add: sample_data sample_parse_joined)
  have d3: "JSON_parse sample_env (field (ev_payload (result_event other_text)) ''data'') =
      Some ?other"
    by (simp add: sample_data sample_parse_other)
  have shape1: "field ?direct ''items'' = JArr [db_pod] [] \<and> list_all pod_like [db_pod]"
    using sample_pods by (simp add: own_prop_def)
  have shape2: "\<not> truthy (field ?joined ''items'')
      \<and> truthy (field ?joined ''resource'') \<and> truthy (field ?joined ''metrics'')
      \<and> JSON_parse sample_env (field ?joined ''resource'') = Some ?pods
      \<and> field ?pods ''items'' = JArr [web_pod, db_pod] []
      \<and> JSON_parse sample_env (field ?joined ''metrics'') = Some ?metrics
      \<and> field ?metrics ''items'' = JArr [web_metric] []
      \<and> list_all (\<lambda>m. is_obj (field m ''metadata'')) [web_metric]"
    by (simp add: own_prop_def parse sample_parse_pods sample_parse_metrics
        sample_texts_truthy web_metric_def)
  have wf2: "list_all pod_like [web_pod, db_pod] \<and> list_all metric_like [web_metric]"
    using sample_pods sample_metrics by (simp add: metrics_map_def)
  have shape3: "\<not> truthy (field ?other ''items'')
      \<and> \<not> (truthy (field ?other ''resource'') \<and> truthy (field ?other ''metrics''))"
    by (simp add: own_prop_def)
  have "handleEvent sample_env (result_event db_only_text) sample_view =
      (sample_view\<lparr>comp := (comp sample_view)
         \<lparr>rowData_obs := ObsFrom (map (with_flat sample_env) [db_pod]),
          rowData := map (with_flat sample_env) [db_pod], isLoading := False\<rparr>\<rparr>, None)"
    using payload_shapes [OF sample_name d1, where items = "[db_pod]" and s = sample_view] shape1
    by blast
  then have direct: "handleEvent sample_env (result_event db_only_text) sample_view =
      (sample_view\<lparr>comp := (comp sample_view)
         \<lparr>rowData_obs := ObsFrom [db_row], rowData := [db_row], isLoading := False\<rparr>\<rparr>, None)"
    by (simp add: sample_rows)
  have "handleEvent sample_env (result_event joined_text) sample_view =
      (sample_view\<lparr>comp := (comp sample_view)
         \<lparr>rowData_obs := ObsFrom (map (\<lambda>item. with_flat sample_env
              (merged (metrics_map [web_metric]) item)) [web_pod, db_pod]),
          rowData := map (\<lambda>item. with_flat sample_env
              (merged (metrics_map [web_metric]) item)) [web_pod, db_pod],
          isLoading := False\<rparr>\<rparr>, None)"
    using payload_shapes [OF sample_name d2, where items = "[web_pod, db_pod]"
        and s = sample_view and parsed = ?pods and metrics = ?metrics and ms = "[web_metric]"]
      shape2 wf2
    by blast
  then have joined: "handleEvent sample_env (result_event joined_text) sample_view =
      (sample_view\<lparr>comp := (comp sample_view)
         \<lparr>rowData_obs := ObsFrom [web_row, db_row], rowData := [web_row, db_row],
          isLoading := False\<rparr>\<rparr>, None)"
    by (simp add: sample_merged sample_rows)
  have "fst (handleEvent sample_env (result_event other_text) sample_view) = sample_view"
    using payload_shapes [OF sample_name d3, where s = sample_view] shape3
    by blast
  with direct joined show ?thesis
    by simp
qed

section \<open>Merge correctness\<close>

text \<open>
  C1, as the code has it: for a result event in one of the two shapes that carries
  well-formed resource items and well-formed metrics entries, \<^verbatim>\<open>handleEvent\<close> returns
  normally and shows one row per item: the item merged as the specification says
  (\<open>merged\<close>: \<^verbatim>\<open>usage\<close> is attached to the first container if and only if the item has a
  container and the map has an entry for the item's name with a container), and every
  row, merged or not, has the field \<^verbatim>\<open>flat\<close> added to it.
\<close>

theorem merge_correct:
  assumes "carries env ev items mm"
    and "list_all pod_like items"
    and "list_all metric_like (map snd mm)"
  shows "handleEvent env ev s =
           (s\<lparr>comp := (comp s)
                \<lparr>rowData_obs := ObsFrom (map (\<lambda>item. with_flat env (merged mm item)) items),
                 rowData := map (\<lambda>item. with_flat env (merged mm item)) items,
                 isLoading := False\<rparr>\<rparr>, None)"
  using handleEvent_pods [OF assms] by (simp add: show_rows_def)

theorem merge_correct_witness:
  "carries sample_env (result_event joined_text) [web_pod, db_pod] (metrics_map [web_metric])
   \<and> list_all pod_like [web_pod, db_pod]
   \<and> list_all metric_like (map snd (metrics_map [web_metric]))
   \<and> handleEvent sample_env (result_event joined_text) sample_view =
       (sample_view\<lparr>comp := (comp sample_view)
          \<lparr>rowData_obs := ObsFrom [web_row, db_row], rowData := [web_row, db_row],
           isLoading := False\<rparr>\<rparr>, None)"
  using merge_correct [OF sample_carries_joined sample_pods sample_metrics, of sample_view]
    sample_carries_joined sample_pods sample_metrics
  by (simp add: sample_merged sample_rows)

theorem unmatched_item_counterexample:
  "mmap_get (metrics_map [web_metric]) (field (field db_pod ''metadata'') ''name'') = JUndef
   \<and> rowData (comp (fst (handleEvent sample_env (result_event joined_text) sample_view))) =
       [web_row, db_row]
   \<and> db_row \<noteq> db_pod"
  by (simp add: sample_handle_joined show_rows_def)
     (simp add: metrics_map_def web_metric_def db_pod_def db_row_def own_prop_def)

section \<open>Items without usable metrics\<close>

lemma with_flat_field:
  assumes "k \<noteq> ''flat''"
  shows "field (with_flat env item) k = field item k"
  using assms by (simp add: with_flat_def field_put_field)

lemma merged_unusable:
  assumes "mmap_get mm (field (field item ''metadata'') ''name'') = JUndef
           \<or> field (mmap_get mm (field (field item ''metadata'') ''name'')) ''containers'' = JUndef
           \<or> field (mmap_get mm (field (field item ''metadata'') ''name'')) ''containers''
               = JArr [] ps"
  shows "merged mm item = item"
  using assms by (auto simp: merged_def split: json.splits list.splits)

text \<open>
  C8, as the code has it. In one of the two payload shapes, with well-formed items and
  metrics entries: when the metrics map has no entry for an item's name, or an entry
  without containers, the item is not merged and still shown: \<^verbatim>\<open>handleEvent\<close> returns
  normally, \<^verbatim>\<open>isLoading\<close> is false, and the row of the item is the item itself with the
  field \<^verbatim>\<open>flat\<close> added, every other field as it was. When the parsed data has neither
  \<^verbatim>\<open>items\<close> nor \<^verbatim>\<open>metrics\<close>, whatever its \<^verbatim>\<open>resource\<close>, nothing is shown: the state is left
  as it is.
\<close>

theorem unusable_metrics_still_rendered:
  "(carries env ev items mm
      \<and> list_all pod_like items
      \<and> list_all metric_like (map snd mm)
      \<and> i < length items
      \<and> (mmap_get mm (field (field (items ! i) ''metadata'') ''name'') = JUndef
          \<or> field (mmap_get mm (field (field (items ! i) ''metadata'') ''name'')) ''containers''
              = JUndef
          \<or> field (mmap_get mm (field (field (items ! i) ''metadata'') ''name'')) ''containers''
              = JArr [] ps) \<longrightarrow>
    snd (handleEvent env ev s) = None
      \<and> \<not> isLoading (comp (fst (handleEvent env ev s)))
      \<and> rowData_obs (comp (fst (handleEvent env ev s))) =
          ObsFrom (rowData (comp (fst (handleEvent env ev s))))
      \<and> length (rowData (comp (fst (handleEvent env ev s)))) = length items
      \<and> rowData (comp (fst (handleEvent env ev s))) ! i = with_flat env (items ! i)
      \<and> (\<forall>k. k \<noteq> ''flat'' \<longrightarrow>
            field (rowData (comp (fst (handleEvent env ev s))) ! i) k = field (items ! i) k))
   \<and> (JSON_parse env (field (ev_payload ev) ''data'') = Some results
        \<and> \<not> truthy (field results ''items'')
        \<and> \<not> truthy (field results ''metrics'') \<longrightarrow>
      fst (handleEvent env ev s) = s)"
proof (intro conjI impI)
  assume h: "carries env ev items mm
      \<and> list_all pod_like items
      \<and> list_all metric_like (map snd mm)
      \<and> i < length items
      \<and> (mmap_get mm (field (field (items ! i) ''metadata'') ''name'') = JUndef
          \<or> field (mmap_get mm (field (field (items ! i) ''metadata'') ''name'')) ''containers''
              = JUndef
          \<or> field (mmap_get mm (field (field (items ! i) ''metadata'') ''name'')) ''containers''
              = JArr [] ps)"
  then have run: "handleEvent env ev s =
      (show_rows (map (\<lambda>item. with_flat env (merged mm item)) items) s, None)"
    by (simp add: handleEvent_pods)
  from h have same: "merged mm (items ! i) = items ! i"
    by (intro merged_unusable) blast
  from h have i: "i < length items"
    by simp
  have frame: "\<forall>k. k \<noteq> ''flat'' \<longrightarrow> field (with_flat env (items ! i)) k = field (items ! i) k"
    by (simp add: with_flat_field)
  from i same show "snd (handleEvent env ev s) = None"
    and "\<not> isLoading (comp (fst (handleEvent env ev s)))"
    and "rowData_obs (comp (fst (handleEvent env ev s))) =
      ObsFrom (rowData (comp (fst (handleEvent env ev s))))"
    and "length (rowData (comp (fst (handleEvent env ev s)))) = length items"
    and "rowData (comp (fst (handleEvent env ev s))) ! i = with_flat env (items ! i)"
    by (simp_all add: run show_rows_def)
  from i same frame
  show "\<forall>k. k \<noteq> ''flat'' \<longrightarrow>
      field (rowData (comp (fst (handleEvent env ev s))) ! i) k = field (items ! i) k"
    by (simp add: run show_rows_def)
next
  assume "JSON_parse env (field (ev_payload ev) ''data'') = Some results
      \<and> \<not> truthy (field results ''items'')
      \<and> \<not> truthy (field results ''metrics'')"
  then show "fst (handleEvent env ev s) = s"
    by (auto intro: handleEvent_neither)
qed

lemma sample_resource_only:
  "JSON_parse sample_env (field (ev_payload (result_event resource_only_text)) ''data'') =
     Some (JObj [(''resource'', JStr pods_text)])"
  by (simp add: sample_data sample_parse_resource_only)

theorem unusable_metrics_still_rendered_witness:
  "carries sample_env (result_event joined_text) [web_pod, db_pod] (metrics_map [web_metric])
   \<and> mmap_get (metrics_map [web_metric]) (field (field ([web_pod, db_pod] ! 1) ''metadata'') ''name'')
       = JUndef
   \<and> snd (handleEvent sample_env (result_event joined_text) sample_view) = None
   \<and> \<not> isLoading (comp (fst (handleEvent sample_env (result_event joined_text) sample_view)))
   \<and> rowData (comp (fst (handleEvent sample_env (result_event joined_text) sample_view))) ! 1
       = db_row
   \<and> field db_row ''spec'' = field db_pod ''spec''
   \<and> fst (handleEvent sample_env (result_event resource_only_text) sample_view) = sample_view"
proof -
  have none: "mmap_get (metrics_map [web_metric])
      (field (field ([web_pod, db_pod] ! 1) ''metadata'') ''name'') = JUndef"
    by (simp add: metrics_map_def web_metric_def db_pod_def own_prop_def)
  have i: "(1::nat) < length [web_pod, db_pod]"
    by simp
  have spec: "field db_row ''spec'' = field db_pod ''spec''"
    by (simp add: db_row_def db_pod_def own_prop_def)
  have shape: "\<not> truthy (field (JObj [(''resource'', JStr pods_text)]) ''items'')
      \<and> \<not> truthy (field (JObj [(''resource'', JStr pods_text)]) ''metrics'')"
    by (simp add: own_prop_def)
  have rendered: "snd (handleEvent sample_env (result_event joined_text) sample_view) = None
      \<and> \<not> isLoading (comp (fst (handleEvent sample_env (result_event joined_text) sample_view)))
      \<and> rowData (comp (fst (handleEvent sample_env (result_event joined_text) sample_view))) ! 1
          = with_flat sample_env ([web_pod, db_pod] ! 1)"
    using unusable_metrics_still_rendered [of sample_env "result_event joined_text"
        "[web_pod, db_pod]" "metrics_map [web_metric]" 1 "[]" sample_view]
      sample_carries_joined sample_pods sample_metrics i none
    by blast
  have unchanged: "fst (handleEvent sample_env (result_event resource_only_text) sample_view) =
      sample_view"
    using unusable_metrics_still_rendered [of sample_env "result_event resource_only_text"
        "[]" "[]" 0 "[]" sample_view "JObj [(''resource'', JStr pods_text)]"]
      sample_resource_only shape
    by blast
  from rendered have row:
    "rowData (comp (fst (handleEvent sample_env (result_event joined_text) sample_view))) ! 1
       = db_row"
    by (simp add: sample_rows)
  from rendered row unchanged none spec sample_carries_joined show ?thesis
    by blast
qed

theorem metrics_missing_counterexample:
  "JSON_parse sample_env (field (ev_payload (result_event resource_only_text)) ''data'') =
     Some (JObj [(''resource'', JStr pods_text)])
   \<and> JSON_parse sample_env (JStr pods_text) =
       Some (JObj [(''items'', JArr [web_pod, db_pod] [])])
   \<and> snd (handleEvent sample_env (result_event resource_only_text) blank_world) = None
   \<and> isLoading (comp (fst (handleEvent sample_env (result_event resource_only_text) blank_world)))
   \<and> rowData (comp (fst (handleEvent sample_env (result_event resource_only_text) blank_world)))
       = []"
proof -
  have shape: "\<not> truthy (lodash_get (JObj [(''resource'', JStr pods_text)]) ''items'')"
    "\<not> (truthy (lodash_get (JObj [(''resource'', JStr pods_text)]) ''resource'')
        \<and> truthy (lodash_get (JObj [(''resource'', JStr pods_text)]) ''metrics''))"
    by (simp_all add: own_prop_def)
  have same: "fst (handleEvent sample_env (result_event resource_only_text) blank_world) =
      blank_world"
    by (rule handleEvent_neither [OF sample_resource_only shape])
  have "load_results sample_env (JObj [(''resource'', JStr pods_text)]) =
      Inr (JObj [(''resource'', JStr pods_text)], [])"
    by (simp add: load_results_def and_then_def own_prop_def sample_texts_truthy)
  then have "snd (handleEvent sample_env (result_event resource_only_text) blank_world) = None"
    by (simp add: handleEvent_def parse_payload_def sample_resource_only sample_name
        own_prop_def)
  moreover have "JSON_parse sample_env (JStr pods_text) =
      Some (JObj [(''items'', JArr [web_pod, db_pod] [])])"
    by (simp add: sample_env_def sample_parse_pods)
  ultimately show ?thesis
    using sample_resource_only
    by (simp add: same) (simp add: blank_world_def new_component_def)
qed

section \<open>What the merge leaves alone\<close>

lemma merged_containers:
  assumes pod: "pod_like item"
    and cs: "field (field item ''spec'') ''containers'' = JArr (c # cs) ps"
  shows "\<exists>c'. field (field (merged mm item) ''spec'') ''containers'' = JArr (c' # cs) ps
           \<and> (\<forall>k. k \<noteq> ''resources'' \<longrightarrow> field c' k = field c k)
           \<and> (\<forall>k. k \<noteq> ''usage'' \<longrightarrow>
                 field (field c' ''resources'') k = field (field c ''resources'') k)
           \<and> (c' = c
               \<or> (\<exists>mc mcs mps.
                     field (mmap_get mm (field (field item ''metadata'') ''name'')) ''containers''
                       = JArr (mc # mcs) mps
                     \<and> field (field c' ''resources'') ''usage'' = field mc ''usage''))"
proof -
  let ?spec = "field item ''spec''"
  let ?r = "field c ''resources''"
  from pod have spec: "has_props ?spec" and item: "has_props item"
    by (simp_all add: pod_like_def is_obj_props pod_like_props)
  from pod cs have r: "has_props ?r"
    by (simp add: pod_like_def is_obj_props)
  then have c: "has_props c"
    by (cases c) simp_all
  let ?mcs = "field (mmap_get mm (field (field item ''metadata'') ''name'')) ''containers''"
  show ?thesis
  proof (cases "\<exists>mc mcs mps. ?mcs = JArr (mc # mcs) mps")
    case True
    then obtain mc mcs mps where mcs: "?mcs = JArr (mc # mcs) mps" by blast
    let ?c' = "put_field c ''resources'' (put_field ?r ''usage'' (field mc ''usage''))"
    have "merged mm item = with_usage item (field mc ''usage'')"
      using cs mcs by (simp add: merged_def)
    then have "field (field (merged mm item) ''spec'') ''containers'' = JArr (?c' # cs) ps"
      using item spec by (simp add: with_usage_def cs field_put_field)
    moreover have "\<forall>k. k \<noteq> ''resources'' \<longrightarrow> field ?c' k = field c k"
      by (simp add: field_put_field)
    moreover have "\<forall>k. k \<noteq> ''usage'' \<longrightarrow> field (field ?c' ''resources'') k = field ?r k"
      using c by (simp add: field_put_field)
    moreover have "field (field ?c' ''resources'') ''usage'' = field mc ''usage''"
      using c r by (simp add: field_put_field)
    ultimately show ?thesis
      using mcs by blast
  next
    case False
    then have "merged mm item = item"
      using cs by (auto simp: merged_def split: json.splits list.splits)
    with cs show ?thesis by auto
  qed
qed

text \<open>
  C5: in the row of an item whose containers are \<open>c # cs\<close>, the containers are \<open>c' # cs\<close>:
  the containers from index 1 on are the same, and \<open>c'\<close> differs from \<open>c\<close> at most in the
  \<^verbatim>\<open>usage\<close> of its \<^verbatim>\<open>resources\<close>, which is then the usage of the first container of the
  item's metrics entry.
\<close>

theorem merge_first_container_only:
  assumes "carries env ev items mm"
    and "list_all pod_like items"
    and "list_all metric_like (map snd mm)"
    and "i < length items"
    and "field (field (items ! i) ''spec'') ''containers'' = JArr (c # cs) ps"
  shows "\<exists>c'. field (field (rowData (comp (fst (handleEvent env ev s))) ! i) ''spec'')
                 ''containers'' = JArr (c' # cs) ps
           \<and> (\<forall>k. k \<noteq> ''resources'' \<longrightarrow> field c' k = field c k)
           \<and> (\<forall>k. k \<noteq> ''usage'' \<longrightarrow>
                 field (field c' ''resources'') k = field (field c ''resources'') k)
           \<and> (c' = c
               \<or> (\<exists>mc mcs mps.
                     field (mmap_get mm (field (field (items ! i) ''metadata'') ''name''))
                       ''containers'' = JArr (mc # mcs) mps
                     \<and> field (field c' ''resources'') ''usage'' = field mc ''usage''))"
proof -
  have run: "handleEvent env ev s =
      (show_rows (map (\<lambda>item. with_flat env (merged mm item)) items) s, None)"
    using assms(1-3) by (rule handleEvent_pods)
  from assms(2,4) have pod: "pod_like (items ! i)"
    by (simp add: list_all_length)
  have "field (with_flat env (merged mm (items ! i))) ''spec'' =
      field (merged mm (items ! i)) ''spec''"
    by (simp add: with_flat_field)
  with assms(4) have row: "field (rowData (comp (fst (handleEvent env ev s))) ! i) ''spec'' =
      field (merged mm (items ! i)) ''spec''"
    by (simp add: run show_rows_def)
  show ?thesis
    unfolding row by (rule merged_containers [OF pod assms(5)])
qed

theorem merge_first_container_only_witness:
  "field (field ([web_pod, db_pod] ! 0) ''spec'') ''containers'' =
     JArr [JObj [(''name'', JStr ''app''), (''resources'', JObj [])],
           JObj [(''name'', JStr ''proxy''), (''resources'', JObj [])]] []
   \<and> field (field (rowData (comp (fst (handleEvent sample_env (result_event joined_text)
        sample_view))) ! 0) ''spec'') ''containers'' =
     JArr [JObj [(''name'', JStr ''app''),
                 (''resources'', JObj [(''usage'', JObj [(''cpu'', JStr ''12m'')])])],
           JObj [(''name'', JStr ''proxy''), (''resources'', JObj [])]] []"
proof -
  let ?c = "JObj [(''name'', JStr ''app''), (''resources'', JObj [])]"
  let ?cs = "[JObj [(''name'', JStr ''proxy''), (''resources'', JObj [])]]"
  let ?row = "rowData (comp (fst (handleEvent sample_env (result_event joined_text)
      sample_view))) ! 0"
  have cs: "field (field ([web_pod, db_pod] ! 0) ''spec'') ''containers'' = JArr (?c # ?cs) []"
    by (simp add: web_pod_def own_prop_def)
  have i: "(0::nat) < length [web_pod, db_pod]"
    by simp
  from merge_first_container_only [OF sample_carries_joined sample_pods sample_metrics i cs,
      of sample_view]
  obtain c' where "field (field ?row ''spec'') ''containers'' = JArr (c' # ?cs) []"
    by blast
  moreover have "?row = web_row"
    by (simp add: sample_handle_joined show_rows_def)
  ultimately show ?thesis
    using cs by (simp add: web_row_def own_prop_def)
qed

section \<open>Teardown\<close>

lemma initialize_keeps:
  "self (initialize s) = self s" "comp (initialize s) = comp s"
  "listeners (initialize s) = listeners s" "bus_subs (initialize s) = bus_subs s"
  "next_token (initialize s) = next_token s"
  by (simp_all add: initialize_def split: option.splits)

lemma handleEvent_keeps:
  "self (fst (handleEvent env ev s)) = self s"
  "subscription (comp (fst (handleEvent env ev s))) = subscription (comp s)"
  "listeners (fst (handleEvent env ev s)) = listeners s"
  "bus_subs (fst (handleEvent env ev s)) = bus_subs s"
  by (simp_all add: handleEvent_def parse_payload_def show_rows_def Let_def
      split: option.splits sum.splits prod.splits)

lemma on_app_event_keeps:
  "self (on_app_event env d s) = self s"
  "subscription (comp (on_app_event env d s)) = subscription (comp s)"
  "listeners (on_app_event env d s) = listeners s"
  "bus_subs (on_app_event env d s) = bus_subs s"
  by (simp_all add: on_app_event_def clearTable_def set_loading_def initialize_keeps)

lemma deliver_keeps:
  "self (deliver env i s) = self s"
  "subscription (comp (deliver env i s)) = subscription (comp s)"
  "listeners (deliver env i s) = listeners s"
  "bus_subs (deliver env i s) = bus_subs s"
  by (cases i; simp add: handleEvent_keeps on_app_event_keeps)+

lemma deliver_all_keeps:
  "self (deliver_all env is s) = self s
   \<and> subscription (comp (deliver_all env is s)) = subscription (comp s)
   \<and> listeners (deliver_all env is s) = listeners s
   \<and> bus_subs (deliver_all env is s) = bus_subs s"
  by (induction "is" arbitrary: s) (simp_all add: deliver_keeps)

lemma started:
  "self (ngOnInit env (set_input r (constructor env me s0))) = me"
  "subscription (comp (ngOnInit env (set_input r (constructor env me s0)))) = Some (next_token s0)"
  "bus_subs (ngOnInit env (set_input r (constructor env me s0))) =
     bus_subs s0 @ [(next_token s0, app_events env, me)]"
  "listeners (ngOnInit env (set_input r (constructor env me s0))) =
     listeners s0 @ [(app_command_result env, me)]"
  by (simp_all add: ngOnInit_def set_input_def constructor_def registerListener_def
      bus_subscribe_def initialize_keeps Let_def)

lemma ngOnDestroy_silent:
  assumes "self s = me" and "subscription (comp s) = Some tok"
    and "bus_subs s = subs @ [(tok, key, me)]"
    and "me \<notin> set (map (\<lambda>(t, k, l). l) subs)"
  shows "self (ngOnDestroy s) = me"
    and "me \<notin> set (result_receivers ch (ngOnDestroy s))"
    and "me \<notin> set (bus_receivers key' (ngOnDestroy s))"
proof -
  have destroyed: "ngOnDestroy s = bus_unsubscribe tok (unRegisterListener me s)"
    using assms(1,2) by (simp add: ngOnDestroy_def unRegisterListener_def Let_def)
  show "self (ngOnDestroy s) = me"
    using assms(1) by (simp add: destroyed bus_unsubscribe_def unRegisterListener_def)
  show "me \<notin> set (result_receivers ch (ngOnDestroy s))"
    by (auto simp: destroyed bus_unsubscribe_def unRegisterListener_def result_receivers_def)
  have "(t, k, me) \<notin> set subs" for t k
    using assms(4) by force
  then show "me \<notin> set (bus_receivers key' (ngOnDestroy s))"
    using assms(3)
    by (auto simp: destroyed bus_unsubscribe_def unRegisterListener_def bus_receivers_def)
qed

lemma deliver_all_silent:
  assumes "\<And>ch. self s \<notin> set (result_receivers ch s)"
    and "\<And>key. self s \<notin> set (bus_receivers key s)"
  shows "deliver_all env is s = s"
proof (induction "is")
  case Nil
  show ?case by simp
next
  case (Cons i "is")
  have "deliver env i s = s"
    using assms by (cases i) simp_all
  with Cons.IH show ?case by simp
qed

text \<open>
  C7: a component is constructed (its identity \<open>me\<close> has no subscription yet), receives
  its input, is initialised and handles any events. After \<^verbatim>\<open>ngOnDestroy\<close> it is a
  receiver of no result channel and of no event-bus key, and whatever is published
  afterwards leaves the state as the teardown left it: nothing reaches \<^verbatim>\<open>handleEvent\<close> or
  the lifecycle callback any more.
\<close>

theorem teardown_silences:
  assumes "me \<notin> set (map (\<lambda>(t, k, l). l) (bus_subs s0))"
  shows "(\<forall>ch. me \<notin> set (result_receivers ch
             (ngOnDestroy (deliver_all env before
               (ngOnInit env (set_input r (constructor env me s0)))))))
         \<and> (\<forall>key. me \<notin> set (bus_receivers key
             (ngOnDestroy (deliver_all env before
               (ngOnInit env (set_input r (constructor env me s0)))))))
         \<and> (\<forall>after. deliver_all env after
             (ngOnDestroy (deliver_all env before
               (ngOnInit env (set_input r (constructor env me s0))))) =
             ngOnDestroy (deliver_all env before
               (ngOnInit env (set_input r (constructor env me s0)))))"
proof -
  let ?live = "deliver_all env before (ngOnInit env (set_input r (constructor env me s0)))"
  have self: "self ?live = me"
    and sub: "subscription (comp ?live) = Some (next_token s0)"
    and subs: "bus_subs ?live = bus_subs s0 @ [(next_token s0, app_events env, me)]"
    by (simp_all add: deliver_all_keeps started)
  note silent = ngOnDestroy_silent [OF self sub subs assms]
  have "deliver_all env after (ngOnDestroy ?live) = ngOnDestroy ?live" for after
    by (rule deliver_all_silent) (simp_all add: silent)
  with silent show ?thesis by blast
qed

theorem teardown_silences_witness:
  "1 \<notin> set (map (\<lambda>(t, k, l). l) (bus_subs blank_world))
   \<and> 1 \<in> set (result_receivers ''app_command_result''
       (ngOnInit sample_env (set_input pods_resource (constructor sample_env 1 blank_world))))
   \<and> 1 \<in> set (bus_receivers ''app_events''
       (ngOnInit sample_env (set_input pods_resource (constructor sample_env 1 blank_world))))
   \<and> 1 \<notin> set (result_receivers ''app_command_result''
       (ngOnDestroy (deliver_all sample_env
           [Result ''app_command_result'' (result_event db_only_text)]
         (ngOnInit sample_env (set_input pods_resource (constructor sample_env 1 blank_world))))))
   \<and> 1 \<notin> set (bus_receivers ''app_events''
       (ngOnDestroy (deliver_all sample_env
           [Result ''app_command_result'' (result_event db_only_text)]
         (ngOnInit sample_env (set_input pods_resource (constructor sample_env 1 blank_world))))))
   \<and> deliver_all sample_env
         [Signal ''app_events'' (JStr ''ns_changed''),
          Result ''app_command_result'' (result_event joined_text)]
       (ngOnDestroy (deliver_all sample_env
           [Result ''app_command_result'' (result_event db_only_text)]
         (ngOnInit sample_env (set_input pods_resource (constructor sample_env 1 blank_world)))))
     = ngOnDestroy (deliver_all sample_env
           [Result ''app_command_result'' (result_event db_only_text)]
         (ngOnInit sample_env (set_input pods_resource (constructor sample_env 1 blank_world))))"
proof -
  have fresh: "1 \<notin> set (map (\<lambda>(t, k, l). l) (bus_subs blank_world))"
    by (simp add: blank_world_def)
  have live: "1 \<in> set (result_receivers ''app_command_result''
        (ngOnInit sample_env (set_input pods_resource (constructor sample_env 1 blank_world))))"
    "1 \<in> set (bus_receivers ''app_events''
        (ngOnInit sample_env (set_input pods_resource (constructor sample_env 1 blank_world))))"
    by (simp_all add: result_receivers_def bus_receivers_def started sample_env_def)
  from teardown_silences [OF fresh, of sample_env
      "[Result ''app_command_result'' (result_event db_only_text)]" pods_resource]
    fresh live
  show ?thesis by blast
qed


end
